theory Spec2Isabelle
  imports Main
begin

section \<open>JavaScript strings\<close>

text \<open>
  A JavaScript string is modelled as a \<^typ>\<open>string\<close> whose characters are the code units
  U+0000 .. U+00FF. On that range the white space removed by \<^verbatim>\<open>String.prototype.trim\<close> and
  matched by the regular-expression class \<^verbatim>\<open>\s\<close> is TAB, LF, VT, FF, CR, SPACE and NBSP,
  and \<^verbatim>\<open>\d\<close> is the ten ASCII digits.
\<close>

definition wsChars :: string where
  "wsChars = [CHR 0x09, CHR 0x0A, CHR 0x0B, CHR 0x0C, CHR 0x0D, CHR 0x20, CHR 0xA0]"

definition isWs :: "char \<Rightarrow> bool" where
  "isWs c = (c \<in> set wsChars)"

text \<open>The code of a character (\<^verbatim>\<open>charCodeAt\<close>), read off its bits.\<close>

fun charCode :: "char \<Rightarrow> nat" where
  "charCode (Char b0 b1 b2 b3 b4 b5 b6 b7) =
     of_bool b0 + 2 * of_bool b1 + 4 * of_bool b2 + 8 * of_bool b3 + 16 * of_bool b4
       + 32 * of_bool b5 + 64 * of_bool b6 + 128 * of_bool b7"

definition isDigit :: "char \<Rightarrow> bool" where
  "isDigit c = (c \<in> set ''0123456789'')"

definition trim :: "string \<Rightarrow> string" where
  "trim s = rev (dropWhile isWs (rev (dropWhile isWs s)))"

text \<open>
  \<^verbatim>\<open>toLowerCase\<close>: the letters A-Z (65..90) and the Latin-1 capitals (192..222 without the
  multiplication sign 215) move up by 32, that is, bit 5 is set; everything else is unchanged.
\<close>

definition isUpper :: "char \<Rightarrow> bool" where
  "isUpper c = (let n = charCode c in (65 \<le> n \<and> n \<le> 90) \<or> (192 \<le> n \<and> n \<le> 222 \<and> n \<noteq> 215))"

fun setBit5 :: "char \<Rightarrow> char" where
  "setBit5 (Char b0 b1 b2 b3 b4 b5 b6 b7) = Char b0 b1 b2 b3 b4 True b6 b7"

definition lowerChar :: "char \<Rightarrow> char" where
  "lowerChar c = (if isUpper c then setBit5 c else c)"

definition toLowerCase :: "string \<Rightarrow> string" where
  "toLowerCase s = map lowerChar s"

text \<open>\<^verbatim>\<open>s.replace(/\D+/g, '')\<close>: only the digits stay.\<close>

definition digitsOnly :: "string \<Rightarrow> string" where
  "digitsOnly s = filter isDigit s"

text \<open>\<^verbatim>\<open>s.slice(-4)\<close>: the last four characters, the whole string when it is shorter.\<close>

definition sliceLast4 :: "string \<Rightarrow> string" where
  "sliceLast4 s = drop (length s - 4) s"

text \<open>\<^verbatim>\<open>parseInt(s, 10)\<close> on a string of digits.\<close>

definition digitVal :: "char \<Rightarrow> nat" where
  "digitVal c = charCode c - 48"

definition parseDigits :: "string \<Rightarrow> nat" where
  "parseDigits s = foldl (\<lambda>acc c. 10 * acc + digitVal c) 0 s"

text \<open>Decimal rendering of a non-negative integer, as a template literal prints it.\<close>

definition digitChar :: "nat \<Rightarrow> char" where
  "digitChar d = ''0123456789'' ! (d mod 10)"

fun showNat :: "nat \<Rightarrow> string" where
  "showNat n = (if n < 10 then [digitChar n] else showNat (n div 10) @ [digitChar n])"

declare showNat.simps [simp del]

text \<open>\<^verbatim>\<open>m.padStart(2, '0')\<close> for the one- and two-character strings it is applied to.\<close>

definition padStart2 :: "string \<Rightarrow> string" where
  "padStart2 s = replicate (2 - length s) (CHR ''0'') @ s"

text \<open>\<^verbatim>\<open>parts.filter(Boolean).join(' ')\<close>.\<close>

fun joinSpace :: "string list \<Rightarrow> string" where
  "joinSpace [] = []"
| "joinSpace [x] = x"
| "joinSpace (x # y # ys) = x @ '' '' @ joinSpace (y # ys)"

definition joinNonEmpty :: "string list \<Rightarrow> string" where
  "joinNonEmpty parts = joinSpace (filter (\<lambda>p. p \<noteq> []) parts)"

text \<open>\<^verbatim>\<open>a || b || ...\<close> on strings: the first operand that is not empty, else the last one.\<close>

fun orElse :: "string list \<Rightarrow> string" where
  "orElse [] = []"
| "orElse [x] = x"
| "orElse (x # y # ys) = (if x \<noteq> [] then x else orElse (y # ys))"

section \<open>JSON batch import: the row sanitizer of \<^verbatim>\<open>importClientsBatch\<close>\<close>

text \<open>
  A raw row is a flat JSON object: its keys in enumeration order with scalar values.
  JavaScript numbers are kept abstract (type \<open>'n\<close>); the few built-in conversions the
  sanitizer applies to them are the fields of \<open>numops\<close>.
\<close>

datatype 'n jsval = JNull | JStr string | JNum 'n | JBool bool

record 'n numops =
  numParse :: "string \<Rightarrow> 'n option"  \<comment> \<open>\<^verbatim>\<open>Number(s)\<close> on a string; \<open>None\<close> is NaN\<close>
  numShow :: "'n \<Rightarrow> string"  \<comment> \<open>\<^verbatim>\<open>String(x)\<close>\<close>
  numIsNaN :: "'n \<Rightarrow> bool"
  numOfBool :: "bool \<Rightarrow> 'n"  \<comment> \<open>\<^verbatim>\<open>Number(true)\<close>, \<^verbatim>\<open>Number(false)\<close>\<close>
  numZero :: 'n

type_synonym 'n raw_row = "(string \<times> 'n jsval) list"

definition jsString :: "'n numops \<Rightarrow> 'n jsval \<Rightarrow> string" where
  "jsString ops v = (case v of
       JNull \<Rightarrow> ''null''
     | JStr t \<Rightarrow> t
     | JNum x \<Rightarrow> numShow ops x
     | JBool b \<Rightarrow> (if b then ''true'' else ''false''))"

text \<open>\<^verbatim>\<open>norm = (k) => String(k || '').toLowerCase().replace(/[\s_\-]/g, '')\<close>\<close>

definition norm :: "string \<Rightarrow> string" where
  "norm k = filter (\<lambda>c. \<not> isWs c \<and> c \<noteq> CHR ''_'' \<and> c \<noteq> CHR ''-'') (toLowerCase k)"

text \<open>\<^verbatim>\<open>for (const k of Object.keys(r)) map[norm(k)] = r[k]\<close>: a later key overwrites.\<close>

definition keyMap :: "'n raw_row \<Rightarrow> (string \<rightharpoonup> 'n jsval)" where
  "keyMap r = foldl (\<lambda>m (k, v). m(norm k \<mapsto> v)) Map.empty r"

fun getRaw :: "'n numops \<Rightarrow> (string \<rightharpoonup> 'n jsval) \<Rightarrow> string list \<Rightarrow> 'n jsval option" where
  "getRaw ops m [] = None"
| "getRaw ops m (nm # nms) =
     (case m (norm nm) of
        None \<Rightarrow> getRaw ops m nms
      | Some JNull \<Rightarrow> getRaw ops m nms
      | Some v \<Rightarrow> (if trim (jsString ops v) \<noteq> [] then Some v else getRaw ops m nms))"

text \<open>
  The helpers \<^verbatim>\<open>s\<close> and \<^verbatim>\<open>n\<close> of the source (renamed, the one-letter names being
  variables here): \<^verbatim>\<open>s = (v) => (v == null ? '' : String(v).trim())\<close> and
  \<^verbatim>\<open>n\<close>, which strips everything but digits, dot and minus from a string before
  \<^verbatim>\<open>Number\<close> and yields \<^verbatim>\<open>undefined\<close> for NaN.
\<close>

definition s_str :: "'n numops \<Rightarrow> 'n jsval option \<Rightarrow> string" where
  "s_str ops v = (case v of None \<Rightarrow> [] | Some JNull \<Rightarrow> [] | Some x \<Rightarrow> trim (jsString ops x))"

definition n_num :: "'n numops \<Rightarrow> 'n jsval option \<Rightarrow> 'n option" where
  "n_num ops v = (case v of
       None \<Rightarrow> None
     | Some (JStr t) \<Rightarrow> numParse ops (filter (\<lambda>c. isDigit c \<or> c = CHR ''.'' \<or> c = CHR ''-'') t)
     | Some (JNum x) \<Rightarrow> (if numIsNaN ops x then None else Some x)
     | Some (JBool b) \<Rightarrow> Some (numOfBool ops b)
     | Some JNull \<Rightarrow> Some (numZero ops))"

text \<open>The expression \<^verbatim>\<open>n(...) ?? 0\<close>.\<close>

definition orZero :: "'n numops \<Rightarrow> 'n option \<Rightarrow> 'n" where
  "orZero ops x = (case x of None \<Rightarrow> numZero ops | Some y \<Rightarrow> y)"

text \<open>
  \<^verbatim>\<open>raw.match(/^(\d{1,2})[\/-]?(\d{2})$/)\<close>: one or two digits, an optional slash or
  hyphen, two digits. The result is the pair of groups.
\<close>

definition isSep :: "char \<Rightarrow> bool" where
  "isSep c = (c = CHR ''/'' \<or> c = CHR ''-'')"

fun matchShortExpiry :: "string \<Rightarrow> (string \<times> string) option" where
  "matchShortExpiry [a, b, c] =
     (if isDigit a \<and> isDigit b \<and> isDigit c then Some ([a], [b, c]) else None)"
| "matchShortExpiry [a, b, c, d] =
     (if isDigit a \<and> isDigit b \<and> isDigit c \<and> isDigit d then Some ([a, b], [c, d])
      else if isDigit a \<and> isSep b \<and> isDigit c \<and> isDigit d then Some ([a], [c, d])
      else None)"
| "matchShortExpiry [a, b, c, d, e] =
     (if isDigit a \<and> isDigit b \<and> isSep c \<and> isDigit d \<and> isDigit e then Some ([a, b], [d, e])
      else None)"
| "matchShortExpiry _ = None"

definition normalizeExpiry :: "'n numops \<Rightarrow> 'n jsval option \<Rightarrow> string" where
  "normalizeExpiry ops val =
     (let raw = s_str ops val in
      if raw = [] then []
      else let digits = digitsOnly raw in
        if length digits = 3 then padStart2 (take 1 digits) @ ''/'' @ drop 1 digits
        else if length digits = 4 then take 2 digits @ ''/'' @ drop 2 digits
        else (case matchShortExpiry raw of
                Some (m, yy) \<Rightarrow> padStart2 m @ ''/'' @ yy
              | None \<Rightarrow> raw))"

text \<open>
  The object \<^verbatim>\<open>out\<close> built by \<^verbatim>\<open>sanitizeRow\<close>; field \<open>b_f\<close> is \<^verbatim>\<open>out.f\<close>
  (\<open>b_id\<close> is \<^verbatim>\<open>out._id\<close>). The whole object becomes the \<^verbatim>\<open>$set\<close> of the row's write.
\<close>

record 'n batch_doc =
  b_id :: string
  b_externalId :: string
  b_name :: string
  b_description :: string
  b_owner :: string
  b_ownedBy :: string
  b_contactStatus :: string
  b_contactType :: string
  b_companyType :: string
  b_phone :: string
  b_email :: string
  b_address :: string
  b_city :: string
  b_state :: string
  b_postalCode :: string
  b_website :: string
  b_facebookPage :: string
  b_industry :: string
  b_forecastedAmount :: "'n"
  b_interactionCount :: "'n"
  b_createdAtText :: string
  b_profileImage :: string
  b_lastNote :: string
  b_fullName :: string
  b_firstName :: string
  b_lastName :: string
  b_company :: string
  b_folderLink :: string
  b_defaultShippingTerms :: string
  b_defaultPaymentMethod :: string
  b_nameCC :: string
  b_ccNumberText :: string
  b_expirationDateText :: string
  b_securityCodeText :: string
  b_zipCodeText :: string

definition sanitizeFields :: "'n numops \<Rightarrow> 'n raw_row \<Rightarrow> 'n batch_doc" where
  "sanitizeFields ops raw =
     (let m = keyMap raw in
      \<lparr>
         b_id = s_str ops (getRaw ops m [''_id'', ''id'', ''client_id'', ''clientid'']),
         b_externalId = s_str ops (getRaw ops m [''externalId'', ''external_id'', ''external-id'']),
         b_name = s_str ops (getRaw ops m [''name'', ''clientname'', ''customername'']),
         b_description = s_str ops (getRaw ops m [''description'', ''desc'']),
         b_owner = s_str ops (getRaw ops m [''owner'']),
         b_ownedBy = s_str ops (getRaw ops m [''ownedBy'', ''owned_by'']),
         b_contactStatus = s_str ops (getRaw ops m [''contactStatus'', ''contact_status'', ''status'']),
         b_contactType = s_str ops (getRaw ops m [''contactType'', ''contact_type'', ''type'']),
         b_companyType = s_str ops (getRaw ops m [''companyType'', ''company_type'']),
         b_phone = s_str ops (getRaw ops m [''phone'', ''telephone'', ''mobile'', ''phoneNumber'', ''phone_number'']),
         b_email = toLowerCase (s_str ops (getRaw ops m [''email'', ''e-mail''])),
         b_address = s_str ops (getRaw ops m [''address'', ''street'', ''address1'']),
         b_city = s_str ops (getRaw ops m [''city'', ''town'']),
         b_state = s_str ops (getRaw ops m [''state'', ''province'', ''region'']),
         b_postalCode = s_str ops (getRaw ops m [''postalCode'', ''postal_code'', ''zip'', ''zipcode'', ''zip_code'']),
         b_website = s_str ops (getRaw ops m [''website'', ''url'']),
         b_facebookPage = s_str ops (getRaw ops m [''facebookPage'', ''facebook'', ''fb'']),
         b_industry = s_str ops (getRaw ops m [''industry'']),
         b_forecastedAmount = orZero ops (n_num ops (getRaw ops m [''forecastedAmount'', ''forecasted_amount'', ''forecast'', ''amount''])),
         b_interactionCount = orZero ops (n_num ops (getRaw ops m [''interactionCount'', ''interaction_count''])),
         b_createdAtText = s_str ops (getRaw ops m [''createdAtText'', ''createdAt'', ''created_at'']),
         b_profileImage = s_str ops (getRaw ops m [''profileImage'', ''avatar'', ''image'']),
         b_lastNote = s_str ops (getRaw ops m [''lastNote'', ''note'', ''notes'']),
         b_fullName = s_str ops (getRaw ops m [''fullName'', ''full_name'', ''fullname'']),
         b_firstName = s_str ops (getRaw ops m [''firstName'', ''first_name'', ''firstname'', ''givenname'']),
         b_lastName = s_str ops (getRaw ops m [''lastName'', ''last_name'', ''lastname'', ''surname'', ''familyname'']),
         b_company = s_str ops (getRaw ops m [''company'', ''companyName'', ''company_name'', ''business'', ''organization'', ''org'', ''companyname'']),
         b_folderLink = s_str ops (getRaw ops m [''folderLink'', ''folder'', ''drive'', ''gdrive'']),
         b_defaultShippingTerms = s_str ops (getRaw ops m [''defaultShippingTerms'']),
         b_defaultPaymentMethod = s_str ops (getRaw ops m [''defaultPaymentMethod'']),
         b_nameCC = s_str ops (getRaw ops m [''nameCC'', ''name_on_card'']),
         b_ccNumberText = s_str ops (getRaw ops m [''ccNumberText'', ''cardNumber'', ''ccNumber'']),
         b_expirationDateText = normalizeExpiry ops (getRaw ops m
           [''expirationDateText'', ''expirationDate'', ''expiration_date'', ''expDate'', ''exp_date'', ''ccExp'', ''expiry'', ''expiration'', ''mm/yy'', ''mm_yy'']),
         b_securityCodeText = s_str ops (getRaw ops m [''securityCodeText'', ''ccCvv'', ''cvv'', ''cvc'']),
         b_zipCodeText = s_str ops (getRaw ops m [''zipCodeText'', ''billingZip'', ''billing_zip''])
      \<rparr>)"

text \<open>
  The name derivation and the owner default that end \<^verbatim>\<open>sanitizeRow\<close>:
  \<^verbatim>\<open>out.fullName || out.company || [out.firstName, out.lastName].filter(Boolean).join(' ').trim()
  || out.email || out.phone || ''\<close>, then the placeholder.
\<close>

definition deriveName :: "'n batch_doc \<Rightarrow> 'n batch_doc" where
  "deriveName out =
     (if b_name out = [] then
        out\<lparr>b_name := orElse [b_fullName out, b_company out,
                                 trim (joinNonEmpty [b_firstName out, b_lastName out]),
                                 b_email out, b_phone out, []]\<rparr>
      else out)"

definition placeholderName :: "'n batch_doc \<Rightarrow> 'n batch_doc" where
  "placeholderName out = (if b_name out = [] then out\<lparr>b_name := ''Unnamed Client''\<rparr> else out)"

definition defaultOwner :: "string \<Rightarrow> 'n batch_doc \<Rightarrow> 'n batch_doc" where
  "defaultOwner userId out =
     (if b_ownedBy out = [] \<and> b_owner out = [] then out\<lparr>b_ownedBy := userId\<rparr> else out)"

definition sanitizeRow :: "'n numops \<Rightarrow> string \<Rightarrow> 'n raw_row \<Rightarrow> 'n batch_doc" where
  "sanitizeRow ops userId raw =
     defaultOwner userId (placeholderName (deriveName (sanitizeFields ops raw)))"

section \<open>Write operations and the store\<close>

text \<open>
  The operations handed to \<^verbatim>\<open>Client.bulkWrite\<close>: \<^verbatim>\<open>updateOne\<close> with its filter,
  \<^verbatim>\<open>$set\<close>, \<^verbatim>\<open>$setOnInsert\<close> and \<^verbatim>\<open>upsert\<close> flag, or \<^verbatim>\<open>insertOne\<close> with its
  document.
\<close>

datatype filter = IdFilter string | EmailFilter string

datatype ('set, 'soi, 'doc) write_op =
    UpdateOne filter 'set 'soi bool
  | InsertOne 'doc













section \<open>JSON batch import: \<^verbatim>\<open>importClientsBatch\<close>\<close>

type_synonym 'n batch_op = "('n batch_doc, string option, unit) write_op"

record 'n batch_acc =
  a_ops :: "'n batch_op list"
  a_rowsProcessed :: nat
  a_skipped :: nat
  a_errors :: "(nat \<times> string) list"
  a_generated :: nat  \<comment> \<open>how many ids \<^verbatim>\<open>new mongoose.Types.ObjectId()\<close> has produced\<close>

text \<open>
  One pass of the loop over \<^verbatim>\<open>rows\<close>. \<open>newObjectId k\<close> is the text of the \<open>k\<close>-th generated
  ObjectId. On flat rows of scalars nothing in the loop body throws, so the
  \<^verbatim>\<open>catch\<close> branch, the only writer of \<^verbatim>\<open>errors\<close>, is not entered.
\<close>

definition pushOp :: "'n batch_op \<Rightarrow> 'n batch_acc \<Rightarrow> 'n batch_acc" where
  "pushOp x acc = acc\<lparr>a_ops := a_ops acc @ [x], a_rowsProcessed := a_rowsProcessed acc + 1\<rparr>"

definition processRow ::
  "'n numops \<Rightarrow> (nat \<Rightarrow> string) \<Rightarrow> string \<Rightarrow> bool \<Rightarrow> 'n batch_acc \<Rightarrow> 'n raw_row \<Rightarrow> 'n batch_acc" where
  "processRow ops newObjectId userId skipValidation acc raw =
     (let doc = sanitizeRow ops userId raw in
      if b_name doc = [] \<and> skipValidation then acc\<lparr>a_skipped := a_skipped acc + 1\<rparr>
      else if b_id doc \<noteq> [] then
        pushOp (UpdateOne (IdFilter (b_id doc)) doc None True) acc
      else if b_email doc \<noteq> [] then
        pushOp (UpdateOne (EmailFilter (b_email doc)) doc None True) acc
      else
        (let gen = newObjectId (a_generated acc) in
         pushOp (UpdateOne (IdFilter gen) (doc\<lparr>b_id := gen\<rparr>) (Some gen) True)
           (acc\<lparr>a_generated := a_generated acc + 1\<rparr>)))"

definition buildOps ::
  "'n numops \<Rightarrow> (nat \<Rightarrow> string) \<Rightarrow> string \<Rightarrow> bool \<Rightarrow> 'n raw_row list \<Rightarrow> 'n batch_acc" where
  "buildOps ops newObjectId userId skipValidation rows =
     foldl (processRow ops newObjectId userId skipValidation)
       \<lparr>a_ops = [], a_rowsProcessed = 0, a_skipped = 0, a_errors = [], a_generated = 0\<rparr> rows"

text \<open>
  \<^verbatim>\<open>Math.max(500, Math.min(parseInt(req.body?.batchSize || '2000', 10) || 2000, 5000))\<close>.
  The argument is what \<^verbatim>\<open>parseInt\<close> reads from \<^verbatim>\<open>batchSize\<close>: \<open>None\<close> when the field is
  absent or not numeric.
\<close>

definition chunkSizeOf :: "int option \<Rightarrow> nat" where
  "chunkSizeOf batchSize =
     nat (max 500 (min (case batchSize of None \<Rightarrow> 2000 | Some b \<Rightarrow> if b = 0 then 2000 else b) 5000))"









section \<open>Regular-expression tests\<close>

text \<open>
  The source tests strings with regular-expression literals (\<^verbatim>\<open>re.test(s)\<close>). The literals
  used there are built from character classes, sequence, alternative and repetition and are
  anchored with \<^verbatim>\<open>^\<close> and \<^verbatim>\<open>$\<close>. Such a literal is written as a value of \<open>rx\<close>.
  The test reads the string from left to right and keeps what is still to be matched (the
  derivative of the expression); it succeeds when, at the end of the string, the remaining
  expression accepts the empty string.
\<close>

text \<open>
  Character classes: \<^verbatim>\<open>\d\<close>, \<^verbatim>\<open>\w\<close> (a letter, a digit or the underscore), \<^verbatim>\<open>\s\<close>,
  an enumeration such as \<^verbatim>\<open>[.-]\<close> and a range such as \<^verbatim>\<open>[1-5]\<close>.
\<close>

datatype cls = Digit | Word | Space | OneOf string | Range char char

definition wordCode :: "nat \<Rightarrow> bool" where
  "wordCode n = ((97 \<le> n \<and> n \<le> 122) \<or> (65 \<le> n \<and> n \<le> 90) \<or> (48 \<le> n \<and> n \<le> 57) \<or> n = 95)"

definition between :: "nat \<Rightarrow> nat \<Rightarrow> nat \<Rightarrow> bool" where
  "between lo n hi = (lo \<le> n \<and> n \<le> hi)"

fun inClass :: "char \<Rightarrow> cls \<Rightarrow> bool" where
  "inClass c Digit = isDigit c"
| "inClass c Word = wordCode (charCode c)"
| "inClass c Space = isWs c"
| "inClass c (OneOf cs) = (c \<in> set cs)"
| "inClass c (Range lo hi) = between (charCode lo) (charCode c) (charCode hi)"

datatype rx = Zero | Eps | Atom cls | Seq rx rx | Alt rx rx | Star rx | Rep nat nat rx

primrec nullable :: "rx \<Rightarrow> bool" where
  "nullable Zero = False"
| "nullable Eps = True"
| "nullable (Atom cs) = False"
| "nullable (Seq a b) = (nullable a \<and> nullable b)"
| "nullable (Alt a b) = (nullable a \<or> nullable b)"
| "nullable (Star a) = True"
| "nullable (Rep m n a) = (m = 0 \<or> nullable a)"

text \<open>
  The constructors used for derivatives keep the expressions small without changing what
  they match: a sequence is nested to the right and drops \<open>Eps\<close>, an alternative is a
  duplicate-free list, \<open>Zero\<close> (no match) is absorbed.
\<close>

definition seq0 :: "rx \<Rightarrow> rx \<Rightarrow> rx" where
  "seq0 a b = (if b = Zero then Zero else Seq a b)"

fun mkSeq :: "rx \<Rightarrow> rx \<Rightarrow> rx" where
  "mkSeq Zero b = Zero"
| "mkSeq Eps b = b"
| "mkSeq (Seq a1 a2) b = seq0 a1 (mkSeq a2 b)"
| "mkSeq a b = seq0 a b"

fun altList :: "rx \<Rightarrow> rx list" where
  "altList Zero = []"
| "altList (Alt a b) = altList a @ altList b"
| "altList r = [r]"

fun altOf :: "rx list \<Rightarrow> rx" where
  "altOf [] = Zero"
| "altOf [r] = r"
| "altOf (r # rs) = Alt r (altOf rs)"

definition mkAlt :: "rx \<Rightarrow> rx \<Rightarrow> rx" where
  "mkAlt a b = altOf (remdups (altList a @ altList b))"

primrec deriv :: "char \<Rightarrow> rx \<Rightarrow> rx" where
  "deriv c Zero = Zero"
| "deriv c Eps = Zero"
| "deriv c (Atom cs) = (if inClass c cs then Eps else Zero)"
| "deriv c (Seq a b) =
     (if nullable a then mkAlt (mkSeq (deriv c a) b) (deriv c b) else mkSeq (deriv c a) b)"
| "deriv c (Alt a b) = mkAlt (deriv c a) (deriv c b)"
| "deriv c (Star a) = mkSeq (deriv c a) (Star a)"
| "deriv c (Rep m n a) = (if n = 0 then Zero else mkSeq (deriv c a) (Rep (m - 1) (n - 1) a))"

definition rxTest :: "rx \<Rightarrow> string \<Rightarrow> bool" where
  "rxTest r s = nullable (foldl (\<lambda>q c. deriv c q) r s)"

text \<open>
  Abbreviations: a literal character, \<^verbatim>\<open>r?\<close>, \<^verbatim>\<open>r+\<close>, \<^verbatim>\<open>r{m}\<close> (and \<open>Rep m n r\<close>
  for \<^verbatim>\<open>r{m,n}\<close>), a sequence and an alternative of several expressions.
\<close>

definition lit :: "char \<Rightarrow> rx" where
  "lit c = Atom (OneOf [c])"

definition opt :: "rx \<Rightarrow> rx" where
  "opt r = Alt r Eps"

definition plus :: "rx \<Rightarrow> rx" where
  "plus r = Seq r (Star r)"

definition times :: "nat \<Rightarrow> rx \<Rightarrow> rx" where
  "times m r = Rep m m r"

fun seqs :: "rx list \<Rightarrow> rx" where
  "seqs [] = Eps"
| "seqs [r] = r"
| "seqs (r # rs) = Seq r (seqs rs)"

definition alts :: "rx list \<Rightarrow> rx" where
  "alts rs = altOf rs"

section \<open>CSV import: the row validator\<close>

text \<open>
  The format checks of the validator module. \<^verbatim>\<open>isValidEmail\<close> and \<^verbatim>\<open>isValidPhone\<close> test a
  regular expression; \<^verbatim>\<open>isValidURL\<close>, \<^verbatim>\<open>isValidDate\<close> and \<^verbatim>\<open>parseDate\<close> rest on the
  built-in \<^verbatim>\<open>URL\<close> and \<^verbatim>\<open>Date\<close> constructors, which are fields of the
  environment, as are the number parsers and the two database look-ups the validator makes.
\<close>

text \<open>\<^verbatim>\<open>/^\w+([.-]?\w+)*@\w+([.-]?\w+)*(\.\w{2,3})+$/\<close>\<close>

definition emailRegex :: rx where
  "emailRegex =
     seqs [plus (Atom Word), Star (Seq (opt (Atom (OneOf ''.-''))) (plus (Atom Word))),
           lit CHR ''@'',
           plus (Atom Word), Star (Seq (opt (Atom (OneOf ''.-''))) (plus (Atom Word))),
           plus (Seq (lit CHR ''.'') (Rep 2 3 (Atom Word)))]"

definition isValidEmail :: "string \<Rightarrow> bool" where
  "isValidEmail e = rxTest emailRegex e"

text \<open>\<^verbatim>\<open>/^[\+]?[(]?[0-9]{3}[)]?[-\s\.]?[0-9]{3}[-\s\.]?[0-9]{4,6}$/\<close>\<close>

definition phoneSep :: rx where
  "phoneSep = Alt (Atom (OneOf ''-.'')) (Atom Space)"

definition phoneRegex :: rx where
  "phoneRegex =
     seqs [opt (lit CHR ''+''), opt (lit CHR ''(''), times 3 (Atom (Range CHR ''0'' CHR ''9'')),
           opt (lit CHR '')''), opt phoneSep, times 3 (Atom (Range CHR ''0'' CHR ''9'')),
           opt phoneSep, Rep 4 6 (Atom (Range CHR ''0'' CHR ''9''))]"

definition isValidPhone :: "string \<Rightarrow> bool" where
  "isValidPhone p = (p = [] \<or> rxTest phoneRegex p)"

datatype jsdate = DateAt int | InvalidDate

datatype lookup = Found | NotFound | LookupFailed

record 'n venv =
  urlParses :: "string \<Rightarrow> bool"  \<comment> \<open>\<^verbatim>\<open>new URL(s)\<close> does not throw\<close>
  dateParse :: "string \<Rightarrow> jsdate"  \<comment> \<open>\<^verbatim>\<open>new Date(s)\<close>\<close>
  dateLocal :: "nat \<Rightarrow> nat \<Rightarrow> nat \<Rightarrow> jsdate"  \<comment> \<open>\<^verbatim>\<open>new Date(year, monthIndex, day)\<close>\<close>
  parseFloatJs :: "'n jsval \<Rightarrow> 'n option"  \<comment> \<open>\<^verbatim>\<open>parseFloat(v)\<close>; \<open>None\<close> is NaN\<close>
  parseIntJs :: "'n jsval \<Rightarrow> int option"  \<comment> \<open>\<^verbatim>\<open>parseInt(v, 10)\<close>; \<open>None\<close> is NaN\<close>
  isNegative :: "'n \<Rightarrow> bool"
  findUser :: "string \<Rightarrow> lookup"  \<comment> \<open>\<^verbatim>\<open>User.findById(id)\<close>\<close>
  findClient :: "string \<Rightarrow> string \<Rightarrow> lookup"  \<comment> \<open>\<^verbatim>\<open>Client.findOne({ name, email })\<close>\<close>

definition isValidURL :: "'n venv \<Rightarrow> string \<Rightarrow> bool" where
  "isValidURL env url = (url = [] \<or> urlParses env url)"

text \<open>
  \<^verbatim>\<open>/^(0[1-9]|1[0-2])\/(0[1-9]|[12][0-9]|3[01])\/\d{4}$/\<close> and
  \<^verbatim>\<open>/^(0[1-9]|[12][0-9]|3[01])\/(0[1-9]|1[0-2])\/\d{4}$/\<close>
\<close>

definition monthRx :: rx where
  "monthRx = Alt (Seq (lit CHR ''0'') (Atom (Range CHR ''1'' CHR ''9'')))
                 (Seq (lit CHR ''1'') (Atom (Range CHR ''0'' CHR ''2'')))"

definition dayRx :: rx where
  "dayRx = alts [Seq (lit CHR ''0'') (Atom (Range CHR ''1'' CHR ''9'')),
                 Seq (Atom (OneOf ''12'')) (Atom (Range CHR ''0'' CHR ''9'')),
                 Seq (lit CHR ''3'') (Atom (OneOf ''01''))]"

definition usFormat :: rx where
  "usFormat = seqs [monthRx, lit CHR ''/'', dayRx, lit CHR ''/'', times 4 (Atom Digit)]"

definition euFormat :: rx where
  "euFormat = seqs [dayRx, lit CHR ''/'', monthRx, lit CHR ''/'', times 4 (Atom Digit)]"

text \<open>\<^verbatim>\<open>dateStr.split('/').map(Number)\<close> on a string of one of the two formats.\<close>

definition slashParts :: "string \<Rightarrow> nat \<times> nat \<times> nat" where
  "slashParts s = (parseDigits (take 2 s), parseDigits (take 2 (drop 3 s)), parseDigits (drop 6 s))"

definition isValidDate :: "'n venv \<Rightarrow> string \<Rightarrow> bool" where
  "isValidDate env dateStr =
     (if dateStr = [] then True
      else if dateParse env dateStr \<noteq> InvalidDate then True
      else if rxTest usFormat dateStr then
        (case slashParts dateStr of (month, day, year) \<Rightarrow> dateLocal env year (month - 1) day \<noteq> InvalidDate)
      else if rxTest euFormat dateStr then
        (case slashParts dateStr of (day, month, year) \<Rightarrow> dateLocal env year (month - 1) day \<noteq> InvalidDate)
      else False)"

text \<open>\<open>None\<close> is \<^verbatim>\<open>null\<close>.\<close>

definition parseDate :: "'n venv \<Rightarrow> string \<Rightarrow> jsdate option" where
  "parseDate env dateStr =
     (if dateStr = [] then None
      else if dateParse env dateStr \<noteq> InvalidDate then Some (dateParse env dateStr)
      else if rxTest usFormat dateStr then
        (case slashParts dateStr of (month, day, year) \<Rightarrow> Some (dateLocal env year (month - 1) day))
      else if rxTest euFormat dateStr then
        (case slashParts dateStr of (day, month, year) \<Rightarrow> Some (dateLocal env year (month - 1) day))
      else None)"

text \<open>
  The row handed to the validator (\<^verbatim>\<open>clientData\<close>): field \<open>c_f\<close> is \<^verbatim>\<open>clientData.f\<close>
  (\<open>c_id\<close> is \<^verbatim>\<open>clientData._id\<close>). A text field that is absent and one that holds the empty
  string are both falsy, and the validator only tests these fields for truth, so both are
  the empty string here. \<^verbatim>\<open>_id\<close> is compared with \<^verbatim>\<open>null\<close> and the two numeric fields
  with \<^verbatim>\<open>undefined\<close>, so they are optional values.
\<close>

record 'n client_draft =
  c_id :: "string option"
  c_externalId :: string
  c_name :: string
  c_description :: string
  c_owner :: string
  c_ownedBy :: string
  c_contactStatus :: string
  c_contactType :: string
  c_companyType :: string
  c_phone :: string
  c_email :: string
  c_address :: string
  c_city :: string
  c_state :: string
  c_postalCode :: string
  c_website :: string
  c_facebookPage :: string
  c_industry :: string
  c_forecastedAmount :: "'n jsval option"
  c_interactionCount :: "'n jsval option"
  c_createdAt :: string
  c_createdAtText :: string
  c_profileImage :: string
  c_lastNote :: string
  c_fullName :: string
  c_projectedCloseDate :: string
  c_folderLink :: string
  c_defaultShippingTerms :: string
  c_defaultPaymentMethod :: string
  c_nameCC :: string
  c_ccNumberText :: string
  c_expirationDateText :: string
  c_securityCodeText :: string
  c_zipCodeText :: string

text \<open>
  The object \<^verbatim>\<open>validatedData\<close>: \<open>v_f\<close> is the key \<^verbatim>\<open>f\<close>, \<open>None\<close> when the object has no
  such key (or holds \<^verbatim>\<open>null\<close>). \<open>v_updatedAt\<close> is written by the importer only.
\<close>

record 'n client_data =
  v_name :: "string option"
  v_email :: "string option"
  v_contactStatus :: "string option"
  v_phone :: "string option"
  v_website :: "string option"
  v_facebookPage :: "string option"
  v_forecastedAmount :: "'n option"
  v_projectedCloseDate :: "jsdate option"
  v_createdAt :: "jsdate option"
  v_interactionCount :: "int option"
  v_id :: "string option"
  v_ownedBy :: "string option"
  v_description :: "string option"
  v_contactType :: "string option"
  v_companyType :: "string option"
  v_address :: "string option"
  v_city :: "string option"
  v_state :: "string option"
  v_postalCode :: "string option"
  v_industry :: "string option"
  v_fullName :: "string option"
  v_lastNote :: "string option"
  v_defaultShippingTerms :: "string option"
  v_defaultPaymentMethod :: "string option"
  v_externalId :: "string option"
  v_owner :: "string option"
  v_folderLink :: "string option"
  v_profileImage :: "string option"
  v_createdAtText :: "string option"
  v_nameCC :: "string option"
  v_ccNumberText :: "string option"
  v_expirationDateText :: "string option"
  v_securityCodeText :: "string option"
  v_zipCodeText :: "string option"
  v_updatedAt :: "jsdate option"

definition emptyData :: "'n client_data" where
  "emptyData = \<lparr>
     v_name = None,
     v_email = None,
     v_contactStatus = None,
     v_phone = None,
     v_website = None,
     v_facebookPage = None,
     v_forecastedAmount = None,
     v_projectedCloseDate = None,
     v_createdAt = None,
     v_interactionCount = None,
     v_id = None,
     v_ownedBy = None,
     v_description = None,
     v_contactType = None,
     v_companyType = None,
     v_address = None,
     v_city = None,
     v_state = None,
     v_postalCode = None,
     v_industry = None,
     v_fullName = None,
     v_lastNote = None,
     v_defaultShippingTerms = None,
     v_defaultPaymentMethod = None,
     v_externalId = None,
     v_owner = None,
     v_folderLink = None,
     v_profileImage = None,
     v_createdAtText = None,
     v_nameCC = None,
     v_ccNumberText = None,
     v_expirationDateText = None,
     v_securityCodeText = None,
     v_zipCodeText = None,
     v_updatedAt = None \<rparr>"

text \<open>The warnings of the validator; \<open>warningText\<close> is the message pushed.\<close>

datatype warning =
    NameFallback
  | NameTruncated
  | InvalidEmail
  | UnknownContactStatus string
  | InvalidPhone
  | InvalidWebsite
  | InvalidFacebookPage
  | ForecastNotNumber
  | ForecastNegative
  | InvalidProjectedCloseDate
  | InvalidCreatedAt
  | InvalidInteractionCount
  | EmptyClientId
  | InvalidOwnerEmail
  | OwnerNotFound string
  | OwnerNotVerified
  | PossibleDuplicate string string

fun warningText :: "warning \<Rightarrow> string" where
  "warningText NameFallback = ''Name was missing or too short; a fallback name was assigned''"
| "warningText NameTruncated = ''Name exceeded 200 characters and was truncated''"
| "warningText InvalidEmail = ''Invalid email format''"
| "warningText (UnknownContactStatus v) =
     ''Unknown contact status \"'' @ v @ ''\". Defaulted to 'Uncategorized'.''"
| "warningText InvalidPhone = ''Invalid phone number format''"
| "warningText InvalidWebsite = ''Invalid website URL format''"
| "warningText InvalidFacebookPage = ''Invalid Facebook page URL format''"
| "warningText ForecastNotNumber = ''Forecasted amount could not be parsed as a number''"
| "warningText ForecastNegative = ''Forecasted amount is negative; keeping as-is''"
| "warningText InvalidProjectedCloseDate = ''Invalid projected close date format; value ignored''"
| "warningText InvalidCreatedAt = ''Invalid createdAt date format; value ignored''"
| "warningText InvalidInteractionCount = ''Interaction count is not a non-negative integer; value ignored''"
| "warningText EmptyClientId =
     ''Provided Client_id was empty after trimming; will let Mongo assign if missing''"
| "warningText InvalidOwnerEmail = ''Invalid owner email format; assigning value as provided''"
| "warningText (OwnerNotFound e) = ''Owner with email '' @ e @ '' not found; assigning anyway''"
| "warningText OwnerNotVerified = ''Could not verify owner existence''"
| "warningText (PossibleDuplicate n e) =
     ''Client with name \"'' @ n @ ''\" and email \"'' @ e @ ''\" may already exist''"

text \<open>The three accumulators of \<^verbatim>\<open>validateClientData\<close>.\<close>

record 'n vstate =
  vs_data :: "'n client_data"
  vs_errors :: "string list"
  vs_warnings :: "warning list"

definition warn :: "warning \<Rightarrow> 'n vstate \<Rightarrow> 'n vstate" where
  "warn w st = st\<lparr>vs_warnings := vs_warnings st @ [w]\<rparr>"

definition setData :: "('n client_data \<Rightarrow> 'n client_data) \<Rightarrow> 'n vstate \<Rightarrow> 'n vstate" where
  "setData f st = st\<lparr>vs_data := f (vs_data st)\<rparr>"

text \<open>Name: permissive, a fallback is synthesized when it is missing or shorter than two.\<close>

definition vName :: "'n client_draft \<Rightarrow> nat \<Rightarrow> 'n vstate \<Rightarrow> 'n vstate" where
  "vName d rowNumber st =
     (if c_name d = [] \<or> length (trim (c_name d)) < 2 then
        (let fallback = orElse [trim (c_fullName d), trim (c_email d), trim (c_externalId d),
                                ''Unnamed Client '' @ showNat rowNumber]
         in warn NameFallback (setData (\<lambda>v. v\<lparr>v_name := Some (take 200 fallback)\<rparr>) st))
      else if length (c_name d) > 200 then
        warn NameTruncated (setData (\<lambda>v. v\<lparr>v_name := Some (take 200 (trim (c_name d)))\<rparr>) st)
      else setData (\<lambda>v. v\<lparr>v_name := Some (trim (c_name d))\<rparr>) st)"

definition vEmail :: "'n client_draft \<Rightarrow> 'n vstate \<Rightarrow> 'n vstate" where
  "vEmail d st =
     (if c_email d \<noteq> [] then
        (if \<not> isValidEmail (c_email d) then warn InvalidEmail st
         else setData (\<lambda>v. v\<lparr>v_email := Some (toLowerCase (c_email d))\<rparr>) st)
      else st)"

definition validStatuses :: "string list" where
  "validStatuses = [''Sampling'', ''New Prospect'', ''Uncategorized'', ''Closed lost'',
                    ''Initial Contact'', ''Closed won'', ''Committed'', ''Consideration'']"

definition vContactStatus :: "'n client_draft \<Rightarrow> 'n vstate \<Rightarrow> 'n vstate" where
  "vContactStatus d st =
     (if c_contactStatus d \<noteq> [] then
        (case find (\<lambda>s. toLowerCase s = toLowerCase (c_contactStatus d)) validStatuses of
           None \<Rightarrow> setData (\<lambda>v. v\<lparr>v_contactStatus := Some ''Uncategorized''\<rparr>)
                     (warn (UnknownContactStatus (c_contactStatus d)) st)
         | Some status \<Rightarrow> setData (\<lambda>v. v\<lparr>v_contactStatus := Some status\<rparr>) st)
      else setData (\<lambda>v. v\<lparr>v_contactStatus := Some ''Uncategorized''\<rparr>) st)"

definition vPhone :: "'n client_draft \<Rightarrow> 'n vstate \<Rightarrow> 'n vstate" where
  "vPhone d st =
     (if c_phone d \<noteq> [] then
        (if \<not> isValidPhone (c_phone d) then warn InvalidPhone st
         else setData (\<lambda>v. v\<lparr>v_phone := Some (trim (c_phone d))\<rparr>) st)
      else st)"

definition vWebsite :: "'n venv \<Rightarrow> 'n client_draft \<Rightarrow> 'n vstate \<Rightarrow> 'n vstate" where
  "vWebsite env d st =
     (if c_website d \<noteq> [] then
        (if \<not> isValidURL env (c_website d) then warn InvalidWebsite st
         else setData (\<lambda>v. v\<lparr>v_website := Some (trim (c_website d))\<rparr>) st)
      else st)"

definition vFacebookPage :: "'n venv \<Rightarrow> 'n client_draft \<Rightarrow> 'n vstate \<Rightarrow> 'n vstate" where
  "vFacebookPage env d st =
     (if c_facebookPage d \<noteq> [] then
        (if \<not> isValidURL env (c_facebookPage d) then warn InvalidFacebookPage st
         else setData (\<lambda>v. v\<lparr>v_facebookPage := Some (trim (c_facebookPage d))\<rparr>) st)
      else st)"

text \<open>\<^verbatim>\<open>clientData.forecastedAmount !== undefined && clientData.forecastedAmount !== ''\<close>\<close>

definition provided :: "'n jsval option \<Rightarrow> bool" where
  "provided x = (case x of None \<Rightarrow> False | Some (JStr t) \<Rightarrow> t \<noteq> [] | Some _ \<Rightarrow> True)"

definition vForecastedAmount :: "'n venv \<Rightarrow> 'n client_draft \<Rightarrow> 'n vstate \<Rightarrow> 'n vstate" where
  "vForecastedAmount env d st =
     (case c_forecastedAmount d of
        None \<Rightarrow> st
      | Some x \<Rightarrow>
          if \<not> provided (Some x) then st
          else (case parseFloatJs env x of
                  None \<Rightarrow> warn ForecastNotNumber st
                | Some amount \<Rightarrow>
                    if isNegative env amount then
                      setData (\<lambda>v. v\<lparr>v_forecastedAmount := Some amount\<rparr>) (warn ForecastNegative st)
                    else setData (\<lambda>v. v\<lparr>v_forecastedAmount := Some amount\<rparr>) st))"

definition vProjectedCloseDate :: "'n venv \<Rightarrow> 'n client_draft \<Rightarrow> 'n vstate \<Rightarrow> 'n vstate" where
  "vProjectedCloseDate env d st =
     (if c_projectedCloseDate d \<noteq> [] then
        (if \<not> isValidDate env (c_projectedCloseDate d) then warn InvalidProjectedCloseDate st
         else setData (\<lambda>v. v\<lparr>v_projectedCloseDate := parseDate env (c_projectedCloseDate d)\<rparr>) st)
      else st)"

definition vCreatedAt :: "'n venv \<Rightarrow> 'n client_draft \<Rightarrow> 'n vstate \<Rightarrow> 'n vstate" where
  "vCreatedAt env d st =
     (if c_createdAt d \<noteq> [] then
        (if \<not> isValidDate env (c_createdAt d) then warn InvalidCreatedAt st
         else setData (\<lambda>v. v\<lparr>v_createdAt := parseDate env (c_createdAt d)\<rparr>) st)
      else st)"

definition vInteractionCount :: "'n venv \<Rightarrow> 'n client_draft \<Rightarrow> 'n vstate \<Rightarrow> 'n vstate" where
  "vInteractionCount env d st =
     (case c_interactionCount d of
        None \<Rightarrow> st
      | Some x \<Rightarrow>
          if \<not> provided (Some x) then st
          else (case parseIntJs env x of
                  None \<Rightarrow> warn InvalidInteractionCount st
                | Some count \<Rightarrow>
                    if count < 0 then warn InvalidInteractionCount st
                    else setData (\<lambda>v. v\<lparr>v_interactionCount := Some count\<rparr>) st))"

definition vId :: "'n client_draft \<Rightarrow> 'n vstate \<Rightarrow> 'n vstate" where
  "vId d st =
     (case c_id d of
        None \<Rightarrow> st
      | Some i \<Rightarrow>
          if length (trim i) = 0 then warn EmptyClientId st
          else setData (\<lambda>v. v\<lparr>v_id := Some (trim i)\<rparr>) st)"

text \<open>Owner: the value is always assigned; an unknown owner is a warning.\<close>

definition vOwner :: "'n venv \<Rightarrow> 'n client_draft \<Rightarrow> 'n vstate \<Rightarrow> 'n vstate" where
  "vOwner env d st =
     (if c_owner d \<noteq> [] \<or> c_ownedBy d \<noteq> [] then
        (let ownerEmail = trim (if c_owner d \<noteq> [] then c_owner d else c_ownedBy d);
             assign = setData (\<lambda>v. v\<lparr>v_ownedBy := Some (toLowerCase ownerEmail)\<rparr>)
         in if \<not> isValidEmail ownerEmail then assign (warn InvalidOwnerEmail st)
            else (case findUser env (toLowerCase ownerEmail) of
                    Found \<Rightarrow> assign st
                  | NotFound \<Rightarrow> assign (warn (OwnerNotFound ownerEmail) st)
                  | LookupFailed \<Rightarrow> assign (warn OwnerNotVerified st)))
      else st)"

text \<open>
  \<^verbatim>\<open>optionalFields.forEach(field => { if (clientData[field]) validatedData[field] =
  clientData[field].trim() })\<close>, in the order of the list.
\<close>

definition copyText :: "string \<Rightarrow> string option" where
  "copyText t = (if t \<noteq> [] then Some (trim t) else None)"

definition vOptionalFields :: "'n client_draft \<Rightarrow> 'n vstate \<Rightarrow> 'n vstate" where
  "vOptionalFields d st =
     setData (\<lambda>v. v\<lparr>
       v_description := copyText (c_description d),
       v_contactType := copyText (c_contactType d),
       v_companyType := copyText (c_companyType d),
       v_address := copyText (c_address d),
       v_city := copyText (c_city d),
       v_state := copyText (c_state d),
       v_postalCode := copyText (c_postalCode d),
       v_industry := copyText (c_industry d),
       v_fullName := copyText (c_fullName d),
       v_lastNote := copyText (c_lastNote d),
       v_defaultShippingTerms := copyText (c_defaultShippingTerms d),
       v_defaultPaymentMethod := copyText (c_defaultPaymentMethod d),
       v_externalId := copyText (c_externalId d),
       v_owner := copyText (c_owner d),
       v_folderLink := copyText (c_folderLink d),
       v_profileImage := copyText (c_profileImage d),
       v_createdAtText := copyText (c_createdAtText d),
       v_nameCC := copyText (c_nameCC d),
       v_ccNumberText := copyText (c_ccNumberText d),
       v_expirationDateText := copyText (c_expirationDateText d),
       v_securityCodeText := copyText (c_securityCodeText d),
       v_zipCodeText := copyText (c_zipCodeText d) \<rparr>) st"

text \<open>The advisory duplicate check on name and email; a failing look-up is ignored.\<close>

definition vDuplicate :: "'n venv \<Rightarrow> 'n vstate \<Rightarrow> 'n vstate" where
  "vDuplicate env st =
     (case (v_name (vs_data st), v_email (vs_data st)) of
        (Some n, Some e) \<Rightarrow>
          if n \<noteq> [] \<and> e \<noteq> [] then
            (case findClient env n e of
               Found \<Rightarrow> warn (PossibleDuplicate n e) st
             | _ \<Rightarrow> st)
          else st
      | _ \<Rightarrow> st)"

text \<open>The result object: \<open>vr_f\<close> is its key \<^verbatim>\<open>f\<close>.\<close>

record 'n validation =
  vr_rowNumber :: nat
  vr_isValid :: bool
  vr_data :: "'n client_data"
  vr_errors :: "string list"
  vr_warnings :: "warning list"

definition validateClientData :: "'n venv \<Rightarrow> 'n client_draft \<Rightarrow> nat \<Rightarrow> 'n validation" where
  "validateClientData env d rowNum =
     (let st0 = \<lparr>vs_data = emptyData, vs_errors = [], vs_warnings = []\<rparr>;
          st1 = vName d rowNum st0;
          st2 = vEmail d st1;
          st3 = vContactStatus d st2;
          st4 = vPhone d st3;
          st5 = vWebsite env d st4;
          st6 = vFacebookPage env d st5;
          st7 = vForecastedAmount env d st6;
          st8 = vProjectedCloseDate env d st7;
          st9 = vCreatedAt env d st8;
          st10 = vInteractionCount env d st9;
          st11 = vId d st10;
          st12 = vOwner env d st11;
          st13 = vOptionalFields d st12;
          st14 = vDuplicate env st13
      in \<lparr> vr_rowNumber = rowNum,
           vr_isValid = (length (vs_errors st14) = 0),
           vr_data = vs_data st14,
           vr_errors = vs_errors st14,
           vr_warnings = vs_warnings st14 \<rparr>)"

text \<open>
  \<^verbatim>\<open>batchValidateClients\<close>: each row is \<^verbatim>\<open>{ rowNumber, data }\<close>; a row number of zero is falsy
  and replaced by the position.
\<close>

record 'n batch_validation =
  totalRows :: nat
  validCount :: nat
  invalidCount :: nat
  warningCount :: nat
  validRows :: "'n validation list"
  invalidRows :: "'n validation list"
  rowsWithWarnings :: "'n validation list"
  allResults :: "'n validation list"

definition batchValidateClients :: "'n venv \<Rightarrow> (nat \<times> 'n client_draft) list \<Rightarrow> 'n batch_validation" where
  "batchValidateClients env clientsData =
     (let results = map (\<lambda>(index, (rowNum, d)).
                       validateClientData env d (if rowNum \<noteq> 0 then rowNum else index + 1))
                     (zip [0 ..< length clientsData] clientsData);
          valids = filter vr_isValid results;
          invalids = filter (\<lambda>r. \<not> vr_isValid r) results;
          warned = filter (\<lambda>r. length (vr_warnings r) > 0) results
      in \<lparr> totalRows = length results,
           validCount = length valids,
           invalidCount = length invalids,
           warningCount = length warned,
           validRows = valids,
           invalidRows = invalids,
           rowsWithWarnings = warned,
           allResults = results \<rparr>)"

section \<open>CSV import: write operations of \<^verbatim>\<open>importClients\<close>\<close>

text \<open>
  For every valid row the importer copies the validated data, stamps \<^verbatim>\<open>updatedAt\<close> on the
  copy, drops the keys of \<^verbatim>\<open>EXCLUDE_KEYS\<close> to obtain the \<^verbatim>\<open>$set\<close> payload and chooses
  between an upsert and a plain insert. \<open>now\<close> is the reading of the clock (\<^verbatim>\<open>new Date()\<close>)
  while the row is handled. Of the excluded keys only \<^verbatim>\<open>_id\<close>, \<^verbatim>\<open>createdAt\<close> and
  \<^verbatim>\<open>updatedAt\<close> can occur in the data.
\<close>

definition setPayloadOf :: "'n client_data \<Rightarrow> 'n client_data" where
  "setPayloadOf dat = dat\<lparr>v_id := None, v_createdAt := None, v_updatedAt := None\<rparr>"

text \<open>\<^verbatim>\<open>!!data._id\<close> and \<^verbatim>\<open>!!data.email\<close>.\<close>

definition truthy :: "string option \<Rightarrow> bool" where
  "truthy x = (case x of None \<Rightarrow> False | Some t \<Rightarrow> t \<noteq> [])"

definition textOf :: "string option \<Rightarrow> string" where
  "textOf x = (case x of None \<Rightarrow> [] | Some t \<Rightarrow> t)"

text \<open>
  \<^verbatim>\<open>let createdOnInsert = new Date(); if (data.createdAt) { const dt = new Date(data.createdAt);
  if (!isNaN(dt.getTime())) createdOnInsert = dt; }\<close>
\<close>

definition createdOnInsert :: "int \<Rightarrow> 'n client_data \<Rightarrow> jsdate" where
  "createdOnInsert now dat =
     (case v_createdAt dat of
        None \<Rightarrow> DateAt now
      | Some InvalidDate \<Rightarrow> DateAt now
      | Some (DateAt t) \<Rightarrow> DateAt t)"

record 'n insert_doc =
  ins_fields :: "'n client_data"  \<comment> \<open>\<^verbatim>\<open>...setPayload\<close>\<close>
  ins_createdAt :: jsdate
  ins_updatedAt :: jsdate

type_synonym 'n csv_op = "('n client_data, jsdate, 'n insert_doc) write_op"

definition csvOp :: "int \<Rightarrow> 'n client_data \<Rightarrow> 'n csv_op" where
  "csvOp now validated =
     (let dat = validated\<lparr>v_updatedAt := Some (DateAt now)\<rparr>;
          setPayload = setPayloadOf dat;
          hasId = truthy (v_id dat);
          hasEmail = truthy (v_email dat)
      in if hasId \<or> hasEmail then
           UpdateOne (if hasId then IdFilter (textOf (v_id dat)) else EmailFilter (textOf (v_email dat)))
             setPayload (createdOnInsert now dat) True
         else
           InsertOne \<lparr> ins_fields = setPayload,
                       ins_createdAt = createdOnInsert now dat,
                       ins_updatedAt = DateAt now \<rparr>)"

text \<open>The sensitive columns of a row, kept aside by the column mapper as \<^verbatim>\<open>__paymentRaw\<close>.\<close>

record payment_raw =
  pr_ccNumber :: string
  pr_ccExp :: string
  pr_ccCvv :: string
  pr_nameOnCard :: string
  pr_billingZip :: string

datatype op_type = TUpdate | TInsert

record op_meta =
  m_type :: op_type
  m_filter :: "filter option"
  m_rowNumber :: nat
  m_name :: "string option"
  m_email :: "string option"
  m_paymentRaw :: "payment_raw option"

definition csvMeta :: "'n validation \<Rightarrow> payment_raw option \<Rightarrow> op_meta" where
  "csvMeta validRow paymentRaw =
     (let d = vr_data validRow;
          hasId = truthy (v_id d);
          hasEmail = truthy (v_email d)
      in if hasId \<or> hasEmail then
           \<lparr> m_type = TUpdate,
             m_filter = Some (if hasId then IdFilter (textOf (v_id d)) else EmailFilter (textOf (v_email d))),
             m_rowNumber = vr_rowNumber validRow, m_name = v_name d, m_email = v_email d,
             m_paymentRaw = paymentRaw \<rparr>
         else
           \<lparr> m_type = TInsert, m_filter = None,
             m_rowNumber = vr_rowNumber validRow, m_name = v_name d, m_email = v_email d,
             m_paymentRaw = paymentRaw \<rparr>)"

text \<open>
  The loop over \<^verbatim>\<open>validation.validRows\<close>; \<open>paymentOf\<close> finds the \<^verbatim>\<open>__paymentRaw\<close> of the
  mapped row with the same row number.
\<close>

definition csvOps :: "int \<Rightarrow> (nat \<Rightarrow> payment_raw option) \<Rightarrow> 'n validation list
    \<Rightarrow> ('n csv_op \<times> op_meta) list" where
  "csvOps now paymentOf valids =
     map (\<lambda>validRow. (csvOp now (vr_data validRow), csvMeta validRow (paymentOf (vr_rowNumber validRow)))) valids"

section \<open>Payment methods\<close>

text \<open>
  The argument of \<^verbatim>\<open>addPaymentMethod\<close> (\<^verbatim>\<open>paymentMethodData\<close>) and the entries of
  \<^verbatim>\<open>paymentMethod.paymentMethods\<close>. The argument may carry the keys \<^verbatim>\<open>cardNumber\<close> and
  \<^verbatim>\<open>cvv\<close>, which the method refuses.
\<close>

record payment_data =
  pmd_id :: string
  pmd_brand :: string
  pmd_last4 :: string
  pmd_expMonth :: nat
  pmd_expYear :: nat
  pmd_nameOnCard :: "string option"
  pmd_billingZip :: "string option"
  pmd_isDefault :: bool
  pmd_cardNumber :: "string option"
  pmd_cvv :: "string option"

record payment_entry =
  pm_id :: string
  pm_brand :: string
  pm_last4 :: string
  pm_expMonth :: nat
  pm_expYear :: nat
  pm_nameOnCard :: "string option"
  pm_billingZip :: "string option"
  pm_isDefault :: bool
  pm_createdAt :: int

text \<open>
  \<^verbatim>\<open>addPaymentMethod\<close> on a document whose \<^verbatim>\<open>paymentMethod\<close> is absent (\<open>None\<close>) or holds
  the given list. The result is the list the document holds when the method returns;
  \<open>None\<close> is the exception thrown for raw card data.
\<close>

definition addPaymentMethod ::
  "int \<Rightarrow> payment_data \<Rightarrow> payment_entry list option \<Rightarrow> payment_entry list option" where
  "addPaymentMethod now paymentMethodData paymentMethod =
     (if truthy (pmd_cardNumber paymentMethodData) \<or> truthy (pmd_cvv paymentMethodData) then None
      else
        (let methods = (case paymentMethod of None \<Rightarrow> [] | Some ms \<Rightarrow> ms);
             makeDefault = (length methods = 0 \<or> pmd_isDefault paymentMethodData);
             methods' = (if makeDefault then map (\<lambda>pm. pm\<lparr>pm_isDefault := False\<rparr>) methods else methods);
             isDefault = (if makeDefault then True else pmd_isDefault paymentMethodData)
         in Some (methods' @
              [\<lparr> pm_id = pmd_id paymentMethodData,
                  pm_brand = pmd_brand paymentMethodData,
                  pm_last4 = pmd_last4 paymentMethodData,
                  pm_expMonth = pmd_expMonth paymentMethodData,
                  pm_expYear = pmd_expYear paymentMethodData,
                  pm_nameOnCard = pmd_nameOnCard paymentMethodData,
                  pm_billingZip = pmd_billingZip paymentMethodData,
                  pm_isDefault = isDefault,
                  pm_createdAt = now \<rparr>])))"

section \<open>Payment tokenization\<close>

text \<open>The four patterns of \<^verbatim>\<open>detectBrand\<close>, tried in this order.\<close>

definition lits :: "string \<Rightarrow> rx" where
  "lits cs = seqs (map lit cs)"

text \<open>\<^verbatim>\<open>/^4\d{12,18}$/\<close>\<close>

definition visaRegex :: rx where
  "visaRegex = Seq (lit CHR ''4'') (Rep 12 18 (Atom Digit))"

text \<open>\<^verbatim>\<open>/^(5[1-5]\d{4}|2(2[2-9]\d{2}|[3-6]\d{3}|7[01]\d{2}|720\d))\d{10}$/\<close>\<close>

definition mastercardRegex :: rx where
  "mastercardRegex =
     Seq (Alt (seqs [lit CHR ''5'', Atom (Range CHR ''1'' CHR ''5''), times 4 (Atom Digit)])
              (Seq (lit CHR ''2'')
                   (alts [seqs [lit CHR ''2'', Atom (Range CHR ''2'' CHR ''9''), times 2 (Atom Digit)],
                          Seq (Atom (Range CHR ''3'' CHR ''6'')) (times 3 (Atom Digit)),
                          seqs [lit CHR ''7'', Atom (OneOf ''01''), times 2 (Atom Digit)],
                          Seq (lits ''720'') (Atom Digit)])))
         (times 10 (Atom Digit))"

text \<open>\<^verbatim>\<open>/^3[47]\d{13}$/\<close>\<close>

definition amexRegex :: rx where
  "amexRegex = seqs [lit CHR ''3'', Atom (OneOf ''47''), times 13 (Atom Digit)]"

text \<open>
  \<^verbatim>\<open>/^(6011\d{12}|65\d{14}|64[4-9]\d{13}|622(12[6-9]|1[3-9]\d|[2-8]\d{2}|9([01]\d|2[0-5]))\d{10})$/\<close>
\<close>

definition discoverRegex :: rx where
  "discoverRegex =
     alts [Seq (lits ''6011'') (times 12 (Atom Digit)),
           Seq (lits ''65'') (times 14 (Atom Digit)),
           seqs [lits ''64'', Atom (Range CHR ''4'' CHR ''9''), times 13 (Atom Digit)],
           seqs [lits ''622'',
                 alts [Seq (lits ''12'') (Atom (Range CHR ''6'' CHR ''9'')),
                       seqs [lit CHR ''1'', Atom (Range CHR ''3'' CHR ''9''), Atom Digit],
                       Seq (Atom (Range CHR ''2'' CHR ''8'')) (times 2 (Atom Digit)),
                       Seq (lit CHR ''9'')
                           (Alt (Seq (Atom (OneOf ''01'')) (Atom Digit))
                                (Seq (lit CHR ''2'') (Atom (Range CHR ''0'' CHR ''5''))))],
                 times 10 (Atom Digit)]]"

definition detectBrand :: "string \<Rightarrow> string" where
  "detectBrand pan =
     (if rxTest visaRegex pan then ''visa''
      else if rxTest mastercardRegex pan then ''mastercard''
      else if rxTest amexRegex pan then ''amex''
      else if rxTest discoverRegex pan then ''discover''
      else ''card'')"

text \<open>
  \<^verbatim>\<open>exp.match(/^(\d{1,2})[\/\-](\d{2,4})$/)\<close>: the two groups, or \<open>None\<close> when the string
  does not match.
\<close>

definition matchExpiry :: "string \<Rightarrow> (string \<times> string) option" where
  "matchExpiry exp =
     (let m = takeWhile isDigit exp in
      case dropWhile isDigit exp of
        [] \<Rightarrow> None
      | sep # yy \<Rightarrow>
          if isSep sep \<and> 1 \<le> length m \<and> length m \<le> 2
             \<and> list_all isDigit yy \<and> 2 \<le> length yy \<and> length yy \<le> 4
          then Some (m, yy) else None)"

text \<open>\<^verbatim>\<open>Math.min(12, Math.max(1, mm))\<close>\<close>

definition clampMonth :: "nat \<Rightarrow> nat" where
  "clampMonth mm = min 12 (max 1 mm)"

text \<open>\<^verbatim>\<open>pr.nameOnCard || undefined\<close>\<close>

definition orUndefined :: "string \<Rightarrow> string option" where
  "orUndefined t = (if t = [] then None else Some t)"

text \<open>
  The part of \<^verbatim>\<open>runOne\<close> that derives the object \<^verbatim>\<open>tokenized\<close> from the sensitive
  columns of one queue item. \<open>None\<close> is a \<^verbatim>\<open>continue\<close>: the item is skipped without a
  message. \<open>nowMs\<close> is \<^verbatim>\<open>Date.now()\<close>.
\<close>

definition tokenize :: "nat \<Rightarrow> payment_raw \<Rightarrow> payment_data option" where
  "tokenize nowMs pr =
     (let digits = digitsOnly (pr_ccNumber pr) in
      if digits = [] \<or> length digits < 13 \<or> length digits > 19 then None
      else
        (let last4 = sliceLast4 digits;
             brand = detectBrand digits;
             exp = trim (pr_ccExp pr)
         in case matchExpiry exp of
              None \<Rightarrow> None
            | Some (m, yy) \<Rightarrow>
                (let mm = parseDigits m;
                     yyyy = (if length yy = 2 then 2000 + parseDigits yy else parseDigits yy)
                 in Some \<lparr> pmd_id = ''csv_'' @ brand @ ''_'' @ last4 @ ''_'' @ showNat nowMs,
                           pmd_brand = brand,
                           pmd_last4 = last4,
                           pmd_expMonth = clampMonth mm,
                           pmd_expYear = yyyy,
                           pmd_nameOnCard = orUndefined (pr_nameOnCard pr),
                           pmd_billingZip = orUndefined (pr_billingZip pr),
                           pmd_isDefault = True,
                           pmd_cardNumber = None,
                           pmd_cvv = None \<rparr>)))"

text \<open>
  A queue item of the worker pool, and one turn of \<^verbatim>\<open>runOne\<close> on it. The client documents
  are looked up by id and hold their list of payment methods; \<open>emailMap\<close> resolves an
  e-mail address to an id. The result is the documents afterwards and whether
  \<^verbatim>\<open>paymentAddedCount\<close> was incremented. Every failure leaves the documents as they were.
  The workers take the items from one queue; their turns are modelled one after the other.
\<close>

record queue_item =
  q_pr :: payment_raw
  q_clientId :: "string option"
  q_email :: "string option"

type_synonym client_docs = "string \<rightharpoonup> payment_entry list option"

definition runOneItem ::
  "nat \<Rightarrow> (string \<rightharpoonup> string) \<Rightarrow> client_docs \<Rightarrow> queue_item \<Rightarrow> client_docs \<times> bool" where
  "runOneItem nowMs emailMap docs item =
     (case tokenize nowMs (q_pr item) of
        None \<Rightarrow> (docs, False)
      | Some tokenized \<Rightarrow>
          (let cid = (if truthy (q_clientId item) then q_clientId item
                      else if truthy (q_email item) then emailMap (textOf (q_email item))
                      else None)
           in if \<not> truthy cid then (docs, False)
              else (case docs (textOf cid) of
                      None \<Rightarrow> (docs, False)
                    | Some paymentMethod \<Rightarrow>
                        (case addPaymentMethod (int nowMs) tokenized paymentMethod of
                           None \<Rightarrow> (docs, False)
                         | Some methods \<Rightarrow> (docs(textOf cid \<mapsto> Some methods), True)))))"

fun runQueue ::
  "nat \<Rightarrow> (string \<rightharpoonup> string) \<Rightarrow> client_docs \<times> nat \<Rightarrow> queue_item list \<Rightarrow> client_docs \<times> nat" where
  "runQueue nowMs emailMap (docs, added) [] = (docs, added)"
| "runQueue nowMs emailMap (docs, added) (item # items) =
     (case runOneItem nowMs emailMap docs item of
        (docs', ok) \<Rightarrow> runQueue nowMs emailMap (docs', if ok then added + 1 else added) items)"

section \<open>Expiry parsing in \<^verbatim>\<open>createClient\<close>\<close>

text \<open>
  \<^verbatim>\<open>createClient\<close> reads \<^verbatim>\<open>MM/YY\<close> first, with the century of the current year, then the
  pattern of the importer. The result is \<^verbatim>\<open>(expMonth, expYear)\<close>; \<open>None\<close> is the answer
  \<^verbatim>\<open>400 Invalid expiry\<close>.
\<close>

definition mmYYRegex :: rx where
  "mmYYRegex = seqs [times 2 (Atom Digit), lit CHR ''/'', times 2 (Atom Digit)]"

definition createClientExpiry :: "nat \<Rightarrow> string \<Rightarrow> (nat \<times> nat) option" where
  "createClientExpiry currentYear rawCcExp =
     (if rawCcExp \<noteq> [] \<and> rxTest mmYYRegex rawCcExp then
        (let m = parseDigits (take 2 rawCcExp);
             y = parseDigits (take 2 (drop 3 rawCcExp));
             currentCentury = (currentYear div 100) * 100
         in Some (clampMonth m, currentCentury + y))
      else if rawCcExp \<noteq> [] then
        (case matchExpiry rawCcExp of
           Some (m, yy) \<Rightarrow>
             (let mm = parseDigits m;
                  yyyy = (if length yy = 2 then 2000 + parseDigits yy else parseDigits yy)
              in Some (clampMonth mm, yyyy))
         | None \<Rightarrow> None)
      else None)"

section \<open>Values for the examples\<close>

text \<open>
  The examples need an interpretation of the abstract parts. Numbers are integers: a cell
  of digits is read as its value, any other text is not a number. No URL and no date
  parses, and the database knows no user and no client. The example store remembers the
  ids it holds: an upsert by id matches a held id and otherwise inserts it, an upsert by
  e-mail address never matches and inserts under the id of its payload.
\<close>

definition intOps :: "int numops" where
  "intOps = \<lparr> numParse = (\<lambda>t. if list_all isDigit t then Some (int (parseDigits t)) else None),
               numShow = (\<lambda>x. if x < 0 then CHR ''-'' # showNat (nat (- x)) else showNat (nat x)),
               numIsNaN = (\<lambda>x. False),
               numOfBool = (\<lambda>b. if b then 1 else 0),
               numZero = 0 \<rparr>"

definition exampleEnv :: "int venv" where
  "exampleEnv = \<lparr> urlParses = (\<lambda>u. False),
                   dateParse = (\<lambda>t. InvalidDate),
                   dateLocal = (\<lambda>y m d. InvalidDate),
                   parseFloatJs = (\<lambda>v. case v of JNum x \<Rightarrow> Some x | _ \<Rightarrow> None),
                   parseIntJs = (\<lambda>v. case v of JNum x \<Rightarrow> Some x | _ \<Rightarrow> None),
                   isNegative = (\<lambda>x. x < 0),
                   findUser = (\<lambda>u. NotFound),
                   findClient = (\<lambda>n e. NotFound) \<rparr>"

definition exampleObjectId :: "nat \<Rightarrow> string" where
  "exampleObjectId k = ''oid'' @ showNat k"


text \<open>
  The row the column mapper starts from: every text field empty, \<^verbatim>\<open>_id\<close> the empty
  string, the two numbers zero.
\<close>

definition blankDraft :: "int client_draft" where
  "blankDraft =
     \<lparr>
       c_id = Some [],
       c_externalId = [],
       c_name = [],
       c_description = [],
       c_owner = [],
       c_ownedBy = [],
       c_contactStatus = [],
       c_contactType = [],
       c_companyType = [],
       c_phone = [],
       c_email = [],
       c_address = [],
       c_city = [],
       c_state = [],
       c_postalCode = [],
       c_website = [],
       c_facebookPage = [],
       c_industry = [],
       c_forecastedAmount = Some (JNum 0),
       c_interactionCount = Some (JNum 0),
       c_createdAt = [],
       c_createdAtText = [],
       c_profileImage = [],
       c_lastNote = [],
       c_fullName = [],
       c_projectedCloseDate = [],
       c_folderLink = [],
       c_defaultShippingTerms = [],
       c_defaultPaymentMethod = [],
       c_nameCC = [],
       c_ccNumberText = [],
       c_expirationDateText = [],
       c_securityCodeText = [],
       c_zipCodeText = [] \<rparr>"

text \<open>A stored payment method that is the default, and a tokenized one to attach.\<close>

definition storedEntry :: payment_entry where
  "storedEntry = \<lparr> pm_id = ''pm_0'', pm_brand = ''mastercard'', pm_last4 = ''4444'',
                     pm_expMonth = 1, pm_expYear = 2027, pm_nameOnCard = None, pm_billingZip = None,
                     pm_isDefault = True, pm_createdAt = 1600000000000 \<rparr>"

definition visaData :: payment_data where
  "visaData = \<lparr> pmd_id = ''pm_1'', pmd_brand = ''visa'', pmd_last4 = ''4242'',
                  pmd_expMonth = 9, pmd_expYear = 2026, pmd_nameOnCard = None, pmd_billingZip = None,
                  pmd_isDefault = True, pmd_cardNumber = None, pmd_cvv = None \<rparr>"

text \<open>The sensitive columns of the scenario row of the specification.\<close>

definition scenarioCard :: payment_raw where
  "scenarioCard = \<lparr> pr_ccNumber = ''4242424242424242'', pr_ccExp = ''09/26'', pr_ccCvv = ''123'',
                      pr_nameOnCard = [], pr_billingZip = [] \<rparr>"

section \<open>Reference definitions for the proofs\<close>


text \<open>The warnings about an unknown contact status.\<close>

definition isStatusWarning :: "warning \<Rightarrow> bool" where
  "isStatusWarning w = (case w of UnknownContactStatus v \<Rightarrow> True | _ \<Rightarrow> False)"

text \<open>
  The name fallback in the words of the specification: the first candidate that is not
  empty, else the placeholder; with the candidates \<^verbatim>\<open>fullName\<close>, the company alias,
  \<^verbatim>\<open>firstName + " " + lastName\<close> trimmed, \<^verbatim>\<open>email\<close> and \<^verbatim>\<open>phone\<close>.
\<close>

definition firstNonEmpty :: "string list \<Rightarrow> string \<Rightarrow> string" where
  "firstNonEmpty candidates placeholder =
     (case filter (\<lambda>c. c \<noteq> []) candidates of [] \<Rightarrow> placeholder | c # cs \<Rightarrow> c)"

definition specDerivedName :: "string \<Rightarrow> string \<Rightarrow> string \<Rightarrow> string \<Rightarrow> string \<Rightarrow> string \<Rightarrow> string" where
  "specDerivedName fullName company firstName lastName email phone =
     firstNonEmpty [fullName, company, trim (firstName @ '' '' @ lastName), email, phone]
       ''Unnamed Client''"





text \<open>Which stored records a filter selects; a record is its id and its e-mail address.\<close>

fun filterSelects :: "filter \<Rightarrow> string \<times> string \<Rightarrow> bool" where
  "filterSelects (IdFilter i) (rid, remail) = (rid = i)"
| "filterSelects (EmailFilter e) (rid, remail) = (remail = e)"

definition isPlainInsert :: "('set, 'soi, 'doc) write_op \<Rightarrow> bool" where
  "isPlainInsert x = (case x of InsertOne doc \<Rightarrow> True | UpdateOne f p c u \<Rightarrow> False)"

text \<open>An operation can update a stored record only if it has a filter that selects one.\<close>

definition mayUpdate :: "('set, 'soi, 'doc) write_op \<Rightarrow> (string \<times> string) list \<Rightarrow> bool" where
  "mayUpdate x stored = (case x of InsertOne doc \<Rightarrow> False
                                 | UpdateOne f p c u \<Rightarrow> list_ex (filterSelects f) stored)"

section \<open>Properties of the JavaScript string functions\<close>

lemma charCode_of_char: "charCode c = of_char c"
  by (cases c) simp

section \<open>Chunked execution of the batch import\<close>







lemma chunkSizeOf_bounds: "500 \<le> chunkSizeOf b \<and> chunkSizeOf b \<le> 5000"
  by (auto simp: chunkSizeOf_def split: option.splits)





section \<open>The validator step by step\<close>

text \<open>
  What each step of \<^verbatim>\<open>validateClientData\<close> leaves alone: none writes to \<^verbatim>\<open>errors\<close>, and
  each writes only the keys it validates.
\<close>

lemma vstate_simps [simp]:
  "vs_data (warn w st) = vs_data st"
  "vs_errors (warn w st) = vs_errors st"
  "vs_warnings (warn w st) = vs_warnings st @ [w]"
  "vs_data (setData f st) = f (vs_data st)"
  "vs_errors (setData f st) = vs_errors st"
  "vs_warnings (setData f st) = vs_warnings st"
  by (simp_all add: warn_def setData_def)

lemma vName_frame:
  "vs_errors (vName d n st) = vs_errors st"
  "v_contactStatus (vs_data (vName d n st)) = v_contactStatus (vs_data st)"
  "v_ccNumberText (vs_data (vName d n st)) = v_ccNumberText (vs_data st)"
  "v_securityCodeText (vs_data (vName d n st)) = v_securityCodeText (vs_data st)"
  "filter isStatusWarning (vs_warnings (vName d n st)) = filter isStatusWarning (vs_warnings st)"
  by (simp_all add: vName_def Let_def isStatusWarning_def split: option.splits lookup.splits prod.splits)

lemma vEmail_frame:
  "vs_errors (vEmail d st) = vs_errors st"
  "v_name (vs_data (vEmail d st)) = v_name (vs_data st)"
  "v_contactStatus (vs_data (vEmail d st)) = v_contactStatus (vs_data st)"
  "v_ccNumberText (vs_data (vEmail d st)) = v_ccNumberText (vs_data st)"
  "v_securityCodeText (vs_data (vEmail d st)) = v_securityCodeText (vs_data st)"
  "filter isStatusWarning (vs_warnings (vEmail d st)) = filter isStatusWarning (vs_warnings st)"
  by (simp_all add: vEmail_def Let_def isStatusWarning_def split: option.splits lookup.splits prod.splits)

lemma vContactStatus_frame:
  "vs_errors (vContactStatus d st) = vs_errors st"
  "v_name (vs_data (vContactStatus d st)) = v_name (vs_data st)"
  "v_ccNumberText (vs_data (vContactStatus d st)) = v_ccNumberText (vs_data st)"
  "v_securityCodeText (vs_data (vContactStatus d st)) = v_securityCodeText (vs_data st)"
  by (simp_all add: vContactStatus_def Let_def isStatusWarning_def split: option.splits lookup.splits prod.splits)

lemma vPhone_frame:
  "vs_errors (vPhone d st) = vs_errors st"
  "v_name (vs_data (vPhone d st)) = v_name (vs_data st)"
  "v_contactStatus (vs_data (vPhone d st)) = v_contactStatus (vs_data st)"
  "v_ccNumberText (vs_data (vPhone d st)) = v_ccNumberText (vs_data st)"
  "v_securityCodeText (vs_data (vPhone d st)) = v_securityCodeText (vs_data st)"
  "filter isStatusWarning (vs_warnings (vPhone d st)) = filter isStatusWarning (vs_warnings st)"
  by (simp_all add: vPhone_def Let_def isStatusWarning_def split: option.splits lookup.splits prod.splits)

lemma vWebsite_frame:
  "vs_errors (vWebsite env d st) = vs_errors st"
  "v_name (vs_data (vWebsite env d st)) = v_name (vs_data st)"
  "v_contactStatus (vs_data (vWebsite env d st)) = v_contactStatus (vs_data st)"
  "v_ccNumberText (vs_data (vWebsite env d st)) = v_ccNumberText (vs_data st)"
  "v_securityCodeText (vs_data (vWebsite env d st)) = v_securityCodeText (vs_data st)"
  "filter isStatusWarning (vs_warnings (vWebsite env d st)) = filter isStatusWarning (vs_warnings st)"
  by (simp_all add: vWebsite_def Let_def isStatusWarning_def split: option.splits lookup.splits prod.splits)

lemma vFacebookPage_frame:
  "vs_errors (vFacebookPage env d st) = vs_errors st"
  "v_name (vs_data (vFacebookPage env d st)) = v_name (vs_data st)"
  "v_contactStatus (vs_data (vFacebookPage env d st)) = v_contactStatus (vs_data st)"
  "v_ccNumberText (vs_data (vFacebookPage env d st)) = v_ccNumberText (vs_data st)"
  "v_securityCodeText (vs_data (vFacebookPage env d st)) = v_securityCodeText (vs_data st)"
  "filter isStatusWarning (vs_warnings (vFacebookPage env d st)) = filter isStatusWarning (vs_warnings st)"
  by (simp_all add: vFacebookPage_def Let_def isStatusWarning_def split: option.splits lookup.splits prod.splits)

lemma vForecastedAmount_frame:
  "vs_errors (vForecastedAmount env d st) = vs_errors st"
  "v_name (vs_data (vForecastedAmount env d st)) = v_name (vs_data st)"
  "v_contactStatus (vs_data (vForecastedAmount env d st)) = v_contactStatus (vs_data st)"
  "v_ccNumberText (vs_data (vForecastedAmount env d st)) = v_ccNumberText (vs_data st)"
  "v_securityCodeText (vs_data (vForecastedAmount env d st)) = v_securityCodeText (vs_data st)"
  "filter isStatusWarning (vs_warnings (vForecastedAmount env d st)) = filter isStatusWarning (vs_warnings st)"
  by (simp_all add: vForecastedAmount_def Let_def isStatusWarning_def split: option.splits lookup.splits prod.splits)

lemma vProjectedCloseDate_frame:
  "vs_errors (vProjectedCloseDate env d st) = vs_errors st"
  "v_name (vs_data (vProjectedCloseDate env d st)) = v_name (vs_data st)"
  "v_contactStatus (vs_data (vProjectedCloseDate env d st)) = v_contactStatus (vs_data st)"
  "v_ccNumberText (vs_data (vProjectedCloseDate env d st)) = v_ccNumberText (vs_data st)"
  "v_securityCodeText (vs_data (vProjectedCloseDate env d st)) = v_securityCodeText (vs_data st)"
  "filter isStatusWarning (vs_warnings (vProjectedCloseDate env d st)) = filter isStatusWarning (vs_warnings st)"
  by (simp_all add: vProjectedCloseDate_def Let_def isStatusWarning_def split: option.splits lookup.splits prod.splits)

lemma vCreatedAt_frame:
  "vs_errors (vCreatedAt env d st) = vs_errors st"
  "v_name (vs_data (vCreatedAt env d st)) = v_name (vs_data st)"
  "v_contactStatus (vs_data (vCreatedAt env d st)) = v_contactStatus (vs_data st)"
  "v_ccNumberText (vs_data (vCreatedAt env d st)) = v_ccNumberText (vs_data st)"
  "v_securityCodeText (vs_data (vCreatedAt env d st)) = v_securityCodeText (vs_data st)"
  "filter isStatusWarning (vs_warnings (vCreatedAt env d st)) = filter isStatusWarning (vs_warnings st)"
  by (simp_all add: vCreatedAt_def Let_def isStatusWarning_def split: option.splits lookup.splits prod.splits)

lemma vInteractionCount_frame:
  "vs_errors (vInteractionCount env d st) = vs_errors st"
  "v_name (vs_data (vInteractionCount env d st)) = v_name (vs_data st)"
  "v_contactStatus (vs_data (vInteractionCount env d st)) = v_contactStatus (vs_data st)"
  "v_ccNumberText (vs_data (vInteractionCount env d st)) = v_ccNumberText (vs_data st)"
  "v_securityCodeText (vs_data (vInteractionCount env d st)) = v_securityCodeText (vs_data st)"
  "filter isStatusWarning (vs_warnings (vInteractionCount env d st)) = filter isStatusWarning (vs_warnings st)"
  by (simp_all add: vInteractionCount_def Let_def isStatusWarning_def split: option.splits lookup.splits prod.splits)

lemma vId_frame:
  "vs_errors (vId d st) = vs_errors st"
  "v_name (vs_data (vId d st)) = v_name (vs_data st)"
  "v_contactStatus (vs_data (vId d st)) = v_contactStatus (vs_data st)"
  "v_ccNumberText (vs_data (vId d st)) = v_ccNumberText (vs_data st)"
  "v_securityCodeText (vs_data (vId d st)) = v_securityCodeText (vs_data st)"
  "filter isStatusWarning (vs_warnings (vId d st)) = filter isStatusWarning (vs_warnings st)"
  by (simp_all add: vId_def Let_def isStatusWarning_def split: option.splits lookup.splits prod.splits)

lemma vOwner_frame:
  "vs_errors (vOwner env d st) = vs_errors st"
  "v_name (vs_data (vOwner env d st)) = v_name (vs_data st)"
  "v_contactStatus (vs_data (vOwner env d st)) = v_contactStatus (vs_data st)"
  "v_ccNumberText (vs_data (vOwner env d st)) = v_ccNumberText (vs_data st)"
  "v_securityCodeText (vs_data (vOwner env d st)) = v_securityCodeText (vs_data st)"
  "filter isStatusWarning (vs_warnings (vOwner env d st)) = filter isStatusWarning (vs_warnings st)"
  by (simp_all add: vOwner_def Let_def isStatusWarning_def split: option.splits lookup.splits prod.splits)

lemma vOptionalFields_frame:
  "vs_errors (vOptionalFields d st) = vs_errors st"
  "v_name (vs_data (vOptionalFields d st)) = v_name (vs_data st)"
  "v_contactStatus (vs_data (vOptionalFields d st)) = v_contactStatus (vs_data st)"
  "filter isStatusWarning (vs_warnings (vOptionalFields d st)) = filter isStatusWarning (vs_warnings st)"
  by (simp_all add: vOptionalFields_def Let_def isStatusWarning_def split: option.splits lookup.splits prod.splits)

lemma vDuplicate_frame:
  "vs_errors (vDuplicate env st) = vs_errors st"
  "v_name (vs_data (vDuplicate env st)) = v_name (vs_data st)"
  "v_contactStatus (vs_data (vDuplicate env st)) = v_contactStatus (vs_data st)"
  "v_ccNumberText (vs_data (vDuplicate env st)) = v_ccNumberText (vs_data st)"
  "v_securityCodeText (vs_data (vDuplicate env st)) = v_securityCodeText (vs_data st)"
  "filter isStatusWarning (vs_warnings (vDuplicate env st)) = filter isStatusWarning (vs_warnings st)"
  by (simp_all add: vDuplicate_def Let_def isStatusWarning_def split: option.splits lookup.splits prod.splits)

lemmas validator_frames =
  vName_frame vEmail_frame vContactStatus_frame vPhone_frame vWebsite_frame vFacebookPage_frame
  vForecastedAmount_frame vProjectedCloseDate_frame vCreatedAt_frame vInteractionCount_frame
  vId_frame vOwner_frame vOptionalFields_frame vDuplicate_frame

section \<open>The validator never rejects\<close>

lemma validateClientData_errors: "vr_errors (validateClientData env d n) = []"
  by (simp add: validateClientData_def Let_def validator_frames)

lemma validateClientData_isValid: "vr_isValid (validateClientData env d n)"
  by (simp add: validateClientData_def Let_def validator_frames)

lemma batch_results_valid: "\<forall>r \<in> set (allResults (batchValidateClients env rows)). vr_isValid r"
  by (auto simp: batchValidateClients_def Let_def validateClientData_isValid)

text \<open>
  Claim C6. For every row and row number the validator returns an empty \<^verbatim>\<open>errors\<close> list
  and \<^verbatim>\<open>isValid = true\<close>; hence the batch validator puts every row among the valid rows
  and none among the invalid ones.
\<close>

theorem validator_never_rejects:
  "vr_errors (validateClientData env d n) = []
   \<and> vr_isValid (validateClientData env d n)
   \<and> invalidRows (batchValidateClients env rows) = []
   \<and> invalidCount (batchValidateClients env rows) = 0
   \<and> validRows (batchValidateClients env rows) = allResults (batchValidateClients env rows)
   \<and> length (validRows (batchValidateClients env rows)) = length rows"
proof -
  have valid: "\<forall>r \<in> set (allResults (batchValidateClients env rows)). vr_isValid r"
    by (rule batch_results_valid)
  have all: "filter vr_isValid (allResults (batchValidateClients env rows))
               = allResults (batchValidateClients env rows)"
    using valid by (simp add: filter_id_conv)
  have none: "filter (\<lambda>r. \<not> vr_isValid r) (allResults (batchValidateClients env rows)) = []"
    using valid by (simp add: filter_empty_conv)
  have len: "length (allResults (batchValidateClients env rows)) = length rows"
    by (simp add: batchValidateClients_def Let_def)
  have shape: "invalidRows (batchValidateClients env rows)
                 = filter (\<lambda>r. \<not> vr_isValid r) (allResults (batchValidateClients env rows))"
    "validRows (batchValidateClients env rows)
       = filter vr_isValid (allResults (batchValidateClients env rows))"
    "invalidCount (batchValidateClients env rows)
       = length (filter (\<lambda>r. \<not> vr_isValid r) (allResults (batchValidateClients env rows)))"
    by (simp_all add: batchValidateClients_def Let_def)
  show ?thesis
    using all none len shape
    by (simp add: validateClientData_errors validateClientData_isValid)
qed

theorem validator_never_rejects_witness:
  "vr_errors (validateClientData exampleEnv (blankDraft\<lparr>c_name := ''Acme'', c_email := ''not an address''\<rparr>) 7) = []
   \<and> vr_isValid (validateClientData exampleEnv (blankDraft\<lparr>c_name := ''Acme'', c_email := ''not an address''\<rparr>) 7)
   \<and> invalidRows (batchValidateClients exampleEnv [(7, blankDraft\<lparr>c_name := ''Acme'', c_email := ''not an address''\<rparr>)]) = []"
  using validator_never_rejects[where env = exampleEnv
      and d = "blankDraft\<lparr>c_name := ''Acme'', c_email := ''not an address''\<rparr>" and n = 7
      and rows = "[(7, blankDraft\<lparr>c_name := ''Acme'', c_email := ''not an address''\<rparr>)]"]
  by simp

section \<open>Unknown contact status\<close>

lemma find_image_None: "x \<notin> set (map f xs) \<Longrightarrow> find (\<lambda>s. f s = x) xs = None"
  by (induction xs) auto

lemma vContactStatus_unknown:
  assumes "c_contactStatus d \<noteq> []"
    and "toLowerCase (c_contactStatus d) \<notin> set (map toLowerCase validStatuses)"
  shows "v_contactStatus (vs_data (vContactStatus d st)) = Some ''Uncategorized''"
    and "filter isStatusWarning (vs_warnings (vContactStatus d st))
           = filter isStatusWarning (vs_warnings st) @ [UnknownContactStatus (c_contactStatus d)]"
proof -
  have "find (\<lambda>s. toLowerCase s = toLowerCase (c_contactStatus d)) validStatuses = None"
    using assms(2) by (rule find_image_None)
  then show "v_contactStatus (vs_data (vContactStatus d st)) = Some ''Uncategorized''"
    and "filter isStatusWarning (vs_warnings (vContactStatus d st))
           = filter isStatusWarning (vs_warnings st) @ [UnknownContactStatus (c_contactStatus d)]"
    using assms(1) by (simp_all add: vContactStatus_def isStatusWarning_def)
qed

lemma vContactStatus_blank:
  assumes "c_contactStatus d = []"
  shows "v_contactStatus (vs_data (vContactStatus d st)) = Some ''Uncategorized''"
    and "vs_warnings (vContactStatus d st) = vs_warnings st"
  using assms by (simp_all add: vContactStatus_def)

lemma validate_blank_status_no_warning:
  "c_contactStatus d = [] \<Longrightarrow>
     filter isStatusWarning (vr_warnings (validateClientData env d n)) = []"
  by (simp add: validateClientData_def Let_def validator_frames vContactStatus_blank)

text \<open>
  Claim C5, as amended. For every draft whose \<^verbatim>\<open>contactStatus\<close> is not empty and is not,
  ignoring case, one of the eight values of the enumeration, the validated record has
  \<^verbatim>\<open>contactStatus = "Uncategorized"\<close>, exactly one warning about the contact status is
  emitted, its text quotes the original value, and there is no error.
\<close>

theorem unknown_contact_status_defaults:
  assumes "c_contactStatus d \<noteq> []"
    and "toLowerCase (c_contactStatus d) \<notin> set (map toLowerCase validStatuses)"
  shows "v_contactStatus (vr_data (validateClientData env d n)) = Some ''Uncategorized''
    \<and> filter isStatusWarning (vr_warnings (validateClientData env d n))
          = [UnknownContactStatus (c_contactStatus d)]
    \<and> warningText (UnknownContactStatus (c_contactStatus d))
          = ''Unknown contact status \"'' @ c_contactStatus d @ ''\". Defaulted to 'Uncategorized'.''
    \<and> vr_errors (validateClientData env d n) = []
    \<and> vr_isValid (validateClientData env d n)"
  by (simp add: validateClientData_def Let_def validator_frames vContactStatus_unknown[OF assms])

theorem unknown_contact_status_defaults_witness:
  "c_contactStatus (blankDraft\<lparr>c_name := ''Acme'', c_contactStatus := ''Interested''\<rparr>) \<noteq> []
   \<and> toLowerCase ''Interested'' \<notin> set (map toLowerCase validStatuses)
   \<and> v_contactStatus (vr_data (validateClientData exampleEnv
         (blankDraft\<lparr>c_name := ''Acme'', c_contactStatus := ''Interested''\<rparr>) 4)) = Some ''Uncategorized''
   \<and> filter isStatusWarning (vr_warnings (validateClientData exampleEnv
         (blankDraft\<lparr>c_name := ''Acme'', c_contactStatus := ''Interested''\<rparr>) 4))
        = [UnknownContactStatus ''Interested'']"
proof -
  have nonempty: "c_contactStatus (blankDraft\<lparr>c_name := ''Acme'', c_contactStatus := ''Interested''\<rparr>) \<noteq> []"
    by simp
  have unknown: "toLowerCase (c_contactStatus (blankDraft\<lparr>c_name := ''Acme'', c_contactStatus := ''Interested''\<rparr>))
                   \<notin> set (map toLowerCase validStatuses)"
    by (simp add: validStatuses_def toLowerCase_def lowerChar_def isUpper_def)
  show ?thesis
    using unknown_contact_status_defaults[OF nonempty unknown, of exampleEnv 4] unknown
    by simp
qed

text \<open>
  The claim as stated fails for an empty \<^verbatim>\<open>contactStatus\<close>: it is not one of the eight
  values, yet no warning is emitted.
\<close>

theorem blank_contact_status_counterexample:
  "toLowerCase (c_contactStatus (blankDraft\<lparr>c_name := ''Acme''\<rparr>)) \<notin> set (map toLowerCase validStatuses)
   \<and> filter isStatusWarning (vr_warnings (validateClientData exampleEnv (blankDraft\<lparr>c_name := ''Acme''\<rparr>) 4)) = []"
proof -
  have blank: "c_contactStatus (blankDraft\<lparr>c_name := ''Acme''\<rparr>) = []"
    by (simp add: blankDraft_def)
  have "toLowerCase [] \<notin> set (map toLowerCase validStatuses)"
    by (simp add: validStatuses_def toLowerCase_def)
  then show ?thesis
    using blank validate_blank_status_no_warning[OF blank] by simp
qed

section \<open>Trimming\<close>

lemma trim_Nil [simp]: "trim [] = []"
  by (simp add: trim_def)

lemma trim_id: "s \<noteq> [] \<Longrightarrow> \<not> isWs (hd s) \<Longrightarrow> \<not> isWs (last s) \<Longrightarrow> trim s = s"
proof -
  assume ne: "s \<noteq> []" and h: "\<not> isWs (hd s)" and l: "\<not> isWs (last s)"
  from ne h have a: "dropWhile isWs s = s"
    by (cases s) auto
  from ne l have b: "dropWhile isWs (rev s) = rev s"
    by (cases "rev s") (auto simp: hd_rev)
  show ?thesis
    by (simp add: trim_def a b)
qed

lemma trim_ends:
  assumes "trim s \<noteq> []"
  shows "\<not> isWs (hd (trim s))" and "\<not> isWs (last (trim s))"
proof -
  let ?t = "dropWhile isWs s"
  let ?u = "dropWhile isWs (rev ?t)"
  have tr: "trim s = rev ?u"
    by (simp add: trim_def)
  from assms tr have une: "?u \<noteq> []"
    by simp
  then have tne: "?t \<noteq> []"
    by (metis dropWhile.simps(1) rev.simps(1))
  have hdu: "\<not> isWs (hd ?u)"
    using une by (rule hd_dropWhile)
  have hdt: "\<not> isWs (hd ?t)"
    using tne by (rule hd_dropWhile)
  have "last ?u = last (rev ?t)"
    using une by (metis last_appendR takeWhile_dropWhile_id)
  then have lastu: "last ?u = hd ?t"
    using tne by (simp add: last_rev)
  show "\<not> isWs (hd (trim s))"
    using une hdt lastu by (simp add: tr hd_rev)
  show "\<not> isWs (last (trim s))"
    using une hdu by (simp add: tr last_rev)
qed

lemma trim_idem: "trim (trim s) = trim s"
proof (cases "trim s = []")
  case True
  then show ?thesis by simp
next
  case False
  then show ?thesis
    using trim_ends[OF False] by (simp add: trim_id)
qed

lemma trim_leading: "isWs c \<Longrightarrow> trim (c # s) = trim s"
  by (simp add: trim_def)

lemma dropWhile_all: "\<forall>x \<in> set s. P x \<Longrightarrow> dropWhile P s = []"
  by (induction s) auto

lemma trim_trailing: "isWs c \<Longrightarrow> trim (s @ [c]) = trim s"
proof (cases "\<forall>x \<in> set s. isWs x")
  case True
  assume "isWs c"
  have a: "dropWhile isWs s = []"
    using True by (rule dropWhile_all)
  have "\<forall>x \<in> set (s @ [c]). isWs x"
    using True \<open>isWs c\<close> by simp
  then have b: "dropWhile isWs (s @ [c]) = []"
    by (rule dropWhile_all)
  show ?thesis
    by (simp only: trim_def a b)
next
  case False
  assume "isWs c"
  with False have "dropWhile isWs (s @ [c]) = dropWhile isWs s @ [c]"
    by (simp add: dropWhile_append)
  with \<open>isWs c\<close> show ?thesis
    by (simp add: trim_def)
qed

lemma isWs_space: "isWs (CHR '' '')"
  by (simp add: isWs_def wsChars_def)

text \<open>
  On trimmed parts, joining the parts that are not empty with a space is the same as
  trimming \<^verbatim>\<open>first + " " + last\<close>.
\<close>

lemma join_is_trimmed_concat:
  "trim (joinNonEmpty [trim a, trim b]) = trim (trim a @ '' '' @ trim b)"
proof (cases "trim a = []")
  case aE: True
  show ?thesis
  proof (cases "trim b = []")
    case True
    with aE show ?thesis
      by (simp add: joinNonEmpty_def trim_leading[OF isWs_space])
  next
    case False
    with aE show ?thesis
      by (simp add: joinNonEmpty_def trim_leading[OF isWs_space])
  qed
next
  case aN: False
  show ?thesis
  proof (cases "trim b = []")
    case True
    with aN show ?thesis
      using trim_trailing[OF isWs_space, of "trim a"] by (simp add: joinNonEmpty_def)
  next
    case False
    with aN show ?thesis
      by (simp add: joinNonEmpty_def)
  qed
qed

section \<open>The row sanitizer field by field\<close>

lemma sanitizeFields_sel:
  "b_id (sanitizeFields ops raw) = s_str ops (getRaw ops (keyMap raw) [''_id'', ''id'', ''client_id'', ''clientid''])"
  "b_name (sanitizeFields ops raw) = s_str ops (getRaw ops (keyMap raw) [''name'', ''clientname'', ''customername''])"
  "b_owner (sanitizeFields ops raw) = s_str ops (getRaw ops (keyMap raw) [''owner''])"
  "b_ownedBy (sanitizeFields ops raw) = s_str ops (getRaw ops (keyMap raw) [''ownedBy'', ''owned_by''])"
  "b_phone (sanitizeFields ops raw) = s_str ops (getRaw ops (keyMap raw) [''phone'', ''telephone'', ''mobile'', ''phoneNumber'', ''phone_number''])"
  "b_email (sanitizeFields ops raw) = toLowerCase (s_str ops (getRaw ops (keyMap raw) [''email'', ''e-mail'']))"
  "b_fullName (sanitizeFields ops raw) = s_str ops (getRaw ops (keyMap raw) [''fullName'', ''full_name'', ''fullname''])"
  "b_firstName (sanitizeFields ops raw) = s_str ops (getRaw ops (keyMap raw) [''firstName'', ''first_name'', ''firstname'', ''givenname''])"
  "b_lastName (sanitizeFields ops raw) = s_str ops (getRaw ops (keyMap raw) [''lastName'', ''last_name'', ''lastname'', ''surname'', ''familyname''])"
  "b_company (sanitizeFields ops raw) = s_str ops (getRaw ops (keyMap raw) [''company'', ''companyName'', ''company_name'', ''business'', ''organization'', ''org'', ''companyname''])"
  "b_ccNumberText (sanitizeFields ops raw) = s_str ops (getRaw ops (keyMap raw) [''ccNumberText'', ''cardNumber'', ''ccNumber''])"
  "b_expirationDateText (sanitizeFields ops raw) = normalizeExpiry ops (getRaw ops (keyMap raw) [''expirationDateText'', ''expirationDate'', ''expiration_date'', ''expDate'', ''exp_date'', ''ccExp'', ''expiry'', ''expiration'', ''mm/yy'', ''mm_yy''])"
  "b_securityCodeText (sanitizeFields ops raw) = s_str ops (getRaw ops (keyMap raw) [''securityCodeText'', ''ccCvv'', ''cvv'', ''cvc''])"
  by (simp_all add: sanitizeFields_def Let_def)

lemma sanitizeRow_keeps:
  "b_id (sanitizeRow ops userId raw) = b_id (sanitizeFields ops raw)"
  "b_email (sanitizeRow ops userId raw) = b_email (sanitizeFields ops raw)"
  "b_phone (sanitizeRow ops userId raw) = b_phone (sanitizeFields ops raw)"
  "b_fullName (sanitizeRow ops userId raw) = b_fullName (sanitizeFields ops raw)"
  "b_firstName (sanitizeRow ops userId raw) = b_firstName (sanitizeFields ops raw)"
  "b_lastName (sanitizeRow ops userId raw) = b_lastName (sanitizeFields ops raw)"
  "b_company (sanitizeRow ops userId raw) = b_company (sanitizeFields ops raw)"
  "b_ccNumberText (sanitizeRow ops userId raw) = b_ccNumberText (sanitizeFields ops raw)"
  "b_securityCodeText (sanitizeRow ops userId raw) = b_securityCodeText (sanitizeFields ops raw)"
  "b_expirationDateText (sanitizeRow ops userId raw) = b_expirationDateText (sanitizeFields ops raw)"
  by (simp_all add: sanitizeRow_def defaultOwner_def placeholderName_def deriveName_def)

lemma s_str_trimmed: "trim (s_str ops v) = s_str ops v"
  by (simp add: s_str_def trim_idem split: option.splits jsval.splits)

lemma first_last_trimmed:
  "trim (joinNonEmpty [b_firstName (sanitizeFields ops raw), b_lastName (sanitizeFields ops raw)])
     = trim (b_firstName (sanitizeFields ops raw) @ '' '' @ b_lastName (sanitizeFields ops raw))"
proof -
  have f: "b_firstName (sanitizeFields ops raw) = trim (b_firstName (sanitizeFields ops raw))"
    by (simp add: sanitizeFields_sel s_str_trimmed)
  have l: "b_lastName (sanitizeFields ops raw) = trim (b_lastName (sanitizeFields ops raw))"
    by (simp add: sanitizeFields_sel s_str_trimmed)
  show ?thesis
    using join_is_trimmed_concat[of "b_firstName (sanitizeFields ops raw)" "b_lastName (sanitizeFields ops raw)"]
    by (simp only: f[symmetric] l[symmetric])
qed

lemma sanitizeRow_name:
  "b_name (sanitizeRow ops userId raw) =
     (if b_name (sanitizeFields ops raw) \<noteq> [] then b_name (sanitizeFields ops raw)
      else specDerivedName (b_fullName (sanitizeRow ops userId raw)) (b_company (sanitizeRow ops userId raw))
             (b_firstName (sanitizeRow ops userId raw)) (b_lastName (sanitizeRow ops userId raw))
             (b_email (sanitizeRow ops userId raw)) (b_phone (sanitizeRow ops userId raw)))"
  by (simp add: sanitizeRow_keeps specDerivedName_def firstNonEmpty_def sanitizeRow_def
      defaultOwner_def placeholderName_def deriveName_def first_last_trimmed)

lemma firstNonEmpty_nonempty: "placeholder \<noteq> [] \<Longrightarrow> firstNonEmpty cs placeholder \<noteq> []"
proof -
  assume p: "placeholder \<noteq> []"
  show ?thesis
  proof (cases "filter (\<lambda>c. c \<noteq> []) cs")
    case Nil
    with p show ?thesis by (simp add: firstNonEmpty_def)
  next
    case (Cons c rest)
    then have "c \<in> set (filter (\<lambda>c. c \<noteq> []) cs)" by simp
    then have "c \<noteq> []" by simp
    with Cons show ?thesis by (simp add: firstNonEmpty_def)
  qed
qed

lemma sanitizeRow_name_nonempty: "b_name (sanitizeRow ops userId raw) \<noteq> []"
  by (simp add: sanitizeRow_def defaultOwner_def placeholderName_def)

lemma processRow_never_skips:
  "a_skipped (processRow ops newObjectId userId skipValidation acc raw) = a_skipped acc"
  "length (a_ops (processRow ops newObjectId userId skipValidation acc raw)) = length (a_ops acc) + 1"
  "a_rowsProcessed (processRow ops newObjectId userId skipValidation acc raw) = a_rowsProcessed acc + 1"
  by (simp_all add: processRow_def pushOp_def Let_def sanitizeRow_name_nonempty)

lemma foldl_processRow:
  "a_skipped (foldl (processRow ops newObjectId userId skipValidation) acc rows) = a_skipped acc
   \<and> length (a_ops (foldl (processRow ops newObjectId userId skipValidation) acc rows))
        = length (a_ops acc) + length rows
   \<and> a_rowsProcessed (foldl (processRow ops newObjectId userId skipValidation) acc rows)
        = a_rowsProcessed acc + length rows"
  by (induction rows arbitrary: acc) (simp_all add: processRow_never_skips)

lemma buildOps_keeps_every_row:
  "a_skipped (buildOps ops newObjectId userId skipValidation rows) = 0"
  "length (a_ops (buildOps ops newObjectId userId skipValidation rows)) = length rows"
  "a_rowsProcessed (buildOps ops newObjectId userId skipValidation rows) = length rows"
  using foldl_processRow[of ops newObjectId userId skipValidation
      "\<lparr>a_ops = [], a_rowsProcessed = 0, a_skipped = 0, a_errors = [], a_generated = 0\<rparr>" rows]
  by (simp_all add: buildOps_def)

section \<open>The name of an imported record\<close>

lemma orElse4_firstNonEmpty: "orElse [a, b, c, p] = firstNonEmpty [a, b, c] p"
  by (simp add: firstNonEmpty_def)

lemma vName_blank:
  "c_name d = [] \<Longrightarrow>
     v_name (vs_data (vName d n st)) =
       Some (take 200 (firstNonEmpty [trim (c_fullName d), trim (c_email d), trim (c_externalId d)]
                         (''Unnamed Client '' @ showNat n)))"
  by (simp add: vName_def Let_def orElse4_firstNonEmpty del: orElse.simps)

lemma take_nonempty: "s \<noteq> [] \<Longrightarrow> take 200 s \<noteq> []"
  by (cases s) simp_all

lemma vName_nonempty: "\<exists>nm. v_name (vs_data (vName d n st)) = Some nm \<and> nm \<noteq> []"
proof (cases "c_name d = [] \<or> length (trim (c_name d)) < 2")
  case True
  have "firstNonEmpty [trim (c_fullName d), trim (c_email d), trim (c_externalId d)]
          (''Unnamed Client '' @ showNat n) \<noteq> []"
    by (rule firstNonEmpty_nonempty) simp
  then show ?thesis
    using True by (simp add: vName_def Let_def orElse4_firstNonEmpty take_nonempty del: orElse.simps)
next
  case False
  then have "trim (c_name d) \<noteq> []"
    by auto
  then show ?thesis
    using False by (simp add: vName_def take_nonempty)
qed

lemma validate_name:
  "v_name (vr_data (validateClientData env d n))
     = v_name (vs_data (vName d n \<lparr>vs_data = emptyData, vs_errors = [], vs_warnings = []\<rparr>))"
  by (simp add: validateClientData_def Let_def validator_frames)

text \<open>
  Claim C2, as amended. In the JSON batch path, when the name column of a row is blank the
  sanitizer sets the name to the first non-empty of \<^verbatim>\<open>fullName\<close>, the company alias,
  \<^verbatim>\<open>firstName + " " + lastName\<close> trimmed, \<^verbatim>\<open>email\<close>, \<^verbatim>\<open>phone\<close>, else to
  \<^verbatim>\<open>"Unnamed Client"\<close>; the name is never empty and no row is skipped. In the CSV path,
  when the name is blank the validator sets it to the first 200 characters of the first
  non-empty of \<^verbatim>\<open>fullName\<close>, \<^verbatim>\<open>email\<close>, \<^verbatim>\<open>externalId\<close> (each trimmed), else of
  \<^verbatim>\<open>"Unnamed Client "\<close> followed by the row number; the validated name is never empty.
\<close>

theorem name_is_derived_and_never_empty:
  "(b_name (sanitizeFields ops raw) = [] \<longrightarrow>
      b_name (sanitizeRow ops userId raw) =
        specDerivedName (b_fullName (sanitizeRow ops userId raw)) (b_company (sanitizeRow ops userId raw))
          (b_firstName (sanitizeRow ops userId raw)) (b_lastName (sanitizeRow ops userId raw))
          (b_email (sanitizeRow ops userId raw)) (b_phone (sanitizeRow ops userId raw)))
   \<and> b_name (sanitizeRow ops userId raw) \<noteq> []
   \<and> a_skipped (buildOps ops newObjectId userId skipValidation rows) = 0
   \<and> length (a_ops (buildOps ops newObjectId userId skipValidation rows)) = length rows
   \<and> (c_name d = [] \<longrightarrow>
        v_name (vr_data (validateClientData env d n)) =
          Some (take 200 (firstNonEmpty [trim (c_fullName d), trim (c_email d), trim (c_externalId d)]
                            (''Unnamed Client '' @ showNat n))))
   \<and> (\<exists>nm. v_name (vr_data (validateClientData env d n)) = Some nm \<and> nm \<noteq> [])"
proof -
  have json: "b_name (sanitizeFields ops raw) = [] \<longrightarrow>
      b_name (sanitizeRow ops userId raw) =
        specDerivedName (b_fullName (sanitizeRow ops userId raw)) (b_company (sanitizeRow ops userId raw))
          (b_firstName (sanitizeRow ops userId raw)) (b_lastName (sanitizeRow ops userId raw))
          (b_email (sanitizeRow ops userId raw)) (b_phone (sanitizeRow ops userId raw))"
    using sanitizeRow_name[of ops userId raw] by simp
  have jsonNonEmpty: "b_name (sanitizeRow ops userId raw) \<noteq> []"
    by (rule sanitizeRow_name_nonempty)
  have kept: "a_skipped (buildOps ops newObjectId userId skipValidation rows) = 0"
    "length (a_ops (buildOps ops newObjectId userId skipValidation rows)) = length rows"
    by (rule buildOps_keeps_every_row)+
  have csv: "c_name d = [] \<longrightarrow>
        v_name (vr_data (validateClientData env d n)) =
          Some (take 200 (firstNonEmpty [trim (c_fullName d), trim (c_email d), trim (c_externalId d)]
                            (''Unnamed Client '' @ showNat n)))"
    by (simp add: validate_name vName_blank)
  have csvNonEmpty: "\<exists>nm. v_name (vr_data (validateClientData env d n)) = Some nm \<and> nm \<noteq> []"
    using vName_nonempty[of d n "\<lparr>vs_data = emptyData, vs_errors = [], vs_warnings = []\<rparr>"]
    by (simp add: validate_name)
  show ?thesis
    using json jsonNonEmpty kept csv csvNonEmpty by blast
qed

lemmas sanitize_eval =
  sanitizeRow_keeps sanitizeFields_sel keyMap_def norm_def toLowerCase_def lowerChar_def isUpper_def
  s_str_def jsString_def trim_def isWs_def wsChars_def

theorem name_is_derived_and_never_empty_witness:
  "b_name (sanitizeFields intOps [(''Name'', JStr ''  ''), (''Full Name'', JStr ''Acme LLC'')]) = []
   \<and> b_name (sanitizeRow intOps ''admin@rebelx.io'' [(''Name'', JStr ''  ''), (''Full Name'', JStr ''Acme LLC'')])
        = ''Acme LLC''
   \<and> c_name (blankDraft\<lparr>c_fullName := ''Acme LLC''\<rparr>) = []
   \<and> v_name (vr_data (validateClientData exampleEnv (blankDraft\<lparr>c_fullName := ''Acme LLC''\<rparr>) 2))
        = Some ''Acme LLC''"
proof -
  have blank: "b_name (sanitizeFields intOps [(''Name'', JStr ''  ''), (''Full Name'', JStr ''Acme LLC'')]) = []"
    by (simp add: sanitize_eval)
  have full: "b_fullName (sanitizeFields intOps [(''Name'', JStr ''  ''), (''Full Name'', JStr ''Acme LLC'')]) = ''Acme LLC''"
    by (simp add: sanitize_eval)
  have csv: "c_name (blankDraft\<lparr>c_fullName := ''Acme LLC''\<rparr>) = []"
    by (simp add: blankDraft_def)
  have csvFull: "c_fullName (blankDraft\<lparr>c_fullName := ''Acme LLC''\<rparr>) = ''Acme LLC''"
    by simp
  show ?thesis
    using name_is_derived_and_never_empty[of intOps "[(''Name'', JStr ''  ''), (''Full Name'', JStr ''Acme LLC'')]"
        "''admin@rebelx.io''" exampleObjectId True "[]" "blankDraft\<lparr>c_fullName := ''Acme LLC''\<rparr>" exampleEnv 2]
      blank full csv csvFull
    by (simp add: sanitizeRow_keeps specDerivedName_def firstNonEmpty_def trim_def isWs_def wsChars_def)
qed

text \<open>
  The claim as stated fails in the CSV path: a row with a blank name and a phone number
  only is not named after the phone number, as the chain of the claim would have it, but
  \<^verbatim>\<open>Unnamed Client 3\<close>.
\<close>

theorem csv_name_fallback_counterexample:
  "c_name (blankDraft\<lparr>c_phone := ''5551234567''\<rparr>) = []
   \<and> specDerivedName (c_fullName (blankDraft\<lparr>c_phone := ''5551234567''\<rparr>)) [] [] []
         (c_email (blankDraft\<lparr>c_phone := ''5551234567''\<rparr>))
         (c_phone (blankDraft\<lparr>c_phone := ''5551234567''\<rparr>)) = ''5551234567''
   \<and> v_name (vr_data (validateClientData exampleEnv (blankDraft\<lparr>c_phone := ''5551234567''\<rparr>) 3))
        = Some ''Unnamed Client 3''"
  by (simp add: validate_name vName_def Let_def blankDraft_def specDerivedName_def firstNonEmpty_def
      trim_def isWs_def wsChars_def showNat.simps digitChar_def)

section \<open>Identity resolution\<close>

lemma emptyData_sel [simp]:
  "v_name emptyData = None"
  "v_email emptyData = None"
  "v_contactStatus emptyData = None"
  "v_phone emptyData = None"
  "v_website emptyData = None"
  "v_facebookPage emptyData = None"
  "v_forecastedAmount emptyData = None"
  "v_projectedCloseDate emptyData = None"
  "v_createdAt emptyData = None"
  "v_interactionCount emptyData = None"
  "v_id emptyData = None"
  "v_ownedBy emptyData = None"
  "v_description emptyData = None"
  "v_contactType emptyData = None"
  "v_companyType emptyData = None"
  "v_address emptyData = None"
  "v_city emptyData = None"
  "v_state emptyData = None"
  "v_postalCode emptyData = None"
  "v_industry emptyData = None"
  "v_fullName emptyData = None"
  "v_lastNote emptyData = None"
  "v_defaultShippingTerms emptyData = None"
  "v_defaultPaymentMethod emptyData = None"
  "v_externalId emptyData = None"
  "v_owner emptyData = None"
  "v_folderLink emptyData = None"
  "v_profileImage emptyData = None"
  "v_createdAtText emptyData = None"
  "v_nameCC emptyData = None"
  "v_ccNumberText emptyData = None"
  "v_expirationDateText emptyData = None"
  "v_securityCodeText emptyData = None"
  "v_zipCodeText emptyData = None"
  "v_updatedAt emptyData = None"
  by (simp_all add: emptyData_def)

lemma processRow_last:
  "last (a_ops (processRow ops newObjectId userId skipValidation acc raw)) =
     (if b_id (sanitizeRow ops userId raw) \<noteq> [] then
        UpdateOne (IdFilter (b_id (sanitizeRow ops userId raw))) (sanitizeRow ops userId raw) None True
      else if b_email (sanitizeRow ops userId raw) \<noteq> [] then
        UpdateOne (EmailFilter (b_email (sanitizeRow ops userId raw))) (sanitizeRow ops userId raw) None True
      else
        UpdateOne (IdFilter (newObjectId (a_generated acc)))
          ((sanitizeRow ops userId raw)\<lparr>b_id := newObjectId (a_generated acc)\<rparr>)
          (Some (newObjectId (a_generated acc))) True)"
  by (simp add: processRow_def pushOp_def Let_def sanitizeRow_name_nonempty)

lemma setPayloadOf_stamped [simp]:
  "setPayloadOf (v\<lparr>v_updatedAt := x\<rparr>) = setPayloadOf v"
  by (simp add: setPayloadOf_def)

lemma createdOnInsert_stamped [simp]:
  "createdOnInsert now (v\<lparr>v_updatedAt := x\<rparr>) = createdOnInsert now v"
  by (simp add: createdOnInsert_def)

lemma csvOp_shape:
  "csvOp now v =
     (if truthy (v_id v) then
        UpdateOne (IdFilter (textOf (v_id v))) (setPayloadOf v) (createdOnInsert now v) True
      else if truthy (v_email v) then
        UpdateOne (EmailFilter (textOf (v_email v))) (setPayloadOf v) (createdOnInsert now v) True
      else
        InsertOne \<lparr> ins_fields = setPayloadOf v, ins_createdAt = createdOnInsert now v,
                    ins_updatedAt = DateAt now \<rparr>)"
  by (simp add: csvOp_def Let_def)

lemma fresh_id_selects_nothing:
  "gen \<notin> fst ` set stored \<Longrightarrow> \<not> list_ex (filterSelects (IdFilter gen)) stored"
  by (induction stored) auto

text \<open>
  Claim C3, as amended. A row with an explicit id is written as an upsert with the filter
  \<^verbatim>\<open>{_id = id}\<close>; otherwise a row with an e-mail address is written as an upsert with the
  filter \<^verbatim>\<open>{email = address}\<close>. A row with neither is, in the JSON batch path, given a
  generated id and written as an upsert with the filter \<^verbatim>\<open>{_id = generated id}\<close> and that
  id in the insert-only clause, which updates no stored record when the id is new; in the
  CSV path it is written as a plain insert, which has no filter and so updates no record.
\<close>

theorem identity_resolution:
  "(b_id (sanitizeRow ops userId raw) \<noteq> [] \<longrightarrow>
      last (a_ops (processRow ops newObjectId userId skipValidation acc raw))
        = UpdateOne (IdFilter (b_id (sanitizeRow ops userId raw))) (sanitizeRow ops userId raw) None True)
   \<and> (b_id (sanitizeRow ops userId raw) = [] \<and> b_email (sanitizeRow ops userId raw) \<noteq> [] \<longrightarrow>
      last (a_ops (processRow ops newObjectId userId skipValidation acc raw))
        = UpdateOne (EmailFilter (b_email (sanitizeRow ops userId raw))) (sanitizeRow ops userId raw) None True)
   \<and> (b_id (sanitizeRow ops userId raw) = [] \<and> b_email (sanitizeRow ops userId raw) = [] \<longrightarrow>
      last (a_ops (processRow ops newObjectId userId skipValidation acc raw))
        = UpdateOne (IdFilter (newObjectId (a_generated acc)))
            ((sanitizeRow ops userId raw)\<lparr>b_id := newObjectId (a_generated acc)\<rparr>)
            (Some (newObjectId (a_generated acc))) True
      \<and> (newObjectId (a_generated acc) \<notin> fst ` set stored \<longrightarrow>
           \<not> mayUpdate (last (a_ops (processRow ops newObjectId userId skipValidation acc raw))) stored))
   \<and> (truthy (v_id v) \<longrightarrow>
        csvOp now v = UpdateOne (IdFilter (textOf (v_id v))) (setPayloadOf v) (createdOnInsert now v) True)
   \<and> (\<not> truthy (v_id v) \<and> truthy (v_email v) \<longrightarrow>
        csvOp now v = UpdateOne (EmailFilter (textOf (v_email v))) (setPayloadOf v) (createdOnInsert now v) True)
   \<and> (\<not> truthy (v_id v) \<and> \<not> truthy (v_email v) \<longrightarrow>
        isPlainInsert (csvOp now v) \<and> \<not> mayUpdate (csvOp now v) stored)"
  by (simp add: processRow_last csvOp_shape isPlainInsert_def mayUpdate_def fresh_id_selects_nothing)

lemmas row_eval =
  sanitize_eval toLowerCase_def

theorem identity_resolution_witness:
  "last (a_ops (processRow intOps exampleObjectId ''admin@rebelx.io'' True
           \<lparr>a_ops = [], a_rowsProcessed = 0, a_skipped = 0, a_errors = [], a_generated = 0\<rparr>
           [(''Client_id'', JStr ''c-17''), (''Email'', JStr ''Ann@Example.io'')]))
     = UpdateOne (IdFilter ''c-17'')
         (sanitizeRow intOps ''admin@rebelx.io'' [(''Client_id'', JStr ''c-17''), (''Email'', JStr ''Ann@Example.io'')])
         None True
   \<and> last (a_ops (processRow intOps exampleObjectId ''admin@rebelx.io'' True
           \<lparr>a_ops = [], a_rowsProcessed = 0, a_skipped = 0, a_errors = [], a_generated = 0\<rparr>
           [(''Email'', JStr ''Ann@Example.io'')]))
     = UpdateOne (EmailFilter ''ann@example.io'')
         (sanitizeRow intOps ''admin@rebelx.io'' [(''Email'', JStr ''Ann@Example.io'')]) None True
   \<and> \<not> mayUpdate (last (a_ops (processRow intOps exampleObjectId ''admin@rebelx.io'' True
           \<lparr>a_ops = [], a_rowsProcessed = 0, a_skipped = 0, a_errors = [], a_generated = 0\<rparr>
           [(''Name'', JStr ''Acme'')])))
         [(''c-17'', ''ann@example.io'')]
   \<and> csvOp 1700000000000 (emptyData\<lparr>v_name := Some ''Acme'', v_id := Some ''c-17''\<rparr> :: int client_data)
     = UpdateOne (IdFilter ''c-17'') (setPayloadOf (emptyData\<lparr>v_name := Some ''Acme'', v_id := Some ''c-17''\<rparr>))
         (DateAt 1700000000000) True
   \<and> csvOp 1700000000000 (emptyData\<lparr>v_name := Some ''Acme'', v_email := Some ''ann@example.io''\<rparr> :: int client_data)
     = UpdateOne (EmailFilter ''ann@example.io'')
         (setPayloadOf (emptyData\<lparr>v_name := Some ''Acme'', v_email := Some ''ann@example.io''\<rparr>))
         (DateAt 1700000000000) True
   \<and> isPlainInsert (csvOp 1700000000000 (emptyData\<lparr>v_name := Some ''Acme''\<rparr> :: int client_data))"
proof -
  let ?acc = "\<lparr>a_ops = [], a_rowsProcessed = 0, a_skipped = 0, a_errors = [], a_generated = 0\<rparr> :: int batch_acc"
  let ?r1 = "[(''Client_id'', JStr ''c-17''), (''Email'', JStr ''Ann@Example.io'')] :: int raw_row"
  let ?r2 = "[(''Email'', JStr ''Ann@Example.io'')] :: int raw_row"
  let ?r3 = "[(''Name'', JStr ''Acme'')] :: int raw_row"
  have id1: "b_id (sanitizeRow intOps ''admin@rebelx.io'' ?r1) = ''c-17''"
    by (simp add: row_eval)
  have id2: "b_id (sanitizeRow intOps ''admin@rebelx.io'' ?r2) = []"
    and em2: "b_email (sanitizeRow intOps ''admin@rebelx.io'' ?r2) = ''ann@example.io''"
    by (simp_all add: row_eval)
  have id3: "b_id (sanitizeRow intOps ''admin@rebelx.io'' ?r3) = []"
    and em3: "b_email (sanitizeRow intOps ''admin@rebelx.io'' ?r3) = []"
    by (simp_all add: row_eval)
  have fresh: "exampleObjectId (a_generated ?acc) \<notin> fst ` set [(''c-17'', ''ann@example.io'')]"
    by (simp add: exampleObjectId_def)
  have w1: "last (a_ops (processRow intOps exampleObjectId ''admin@rebelx.io'' True ?acc ?r1))
               = UpdateOne (IdFilter ''c-17'') (sanitizeRow intOps ''admin@rebelx.io'' ?r1) None True"
    and w4: "csvOp 1700000000000 (emptyData\<lparr>v_name := Some ''Acme'', v_id := Some ''c-17''\<rparr> :: int client_data)
               = UpdateOne (IdFilter ''c-17'')
                   (setPayloadOf (emptyData\<lparr>v_name := Some ''Acme'', v_id := Some ''c-17''\<rparr>))
                   (DateAt 1700000000000) True"
    using identity_resolution[of intOps "''admin@rebelx.io''" ?r1 exampleObjectId True ?acc "[]"
        "emptyData\<lparr>v_name := Some ''Acme'', v_id := Some ''c-17''\<rparr> :: int client_data" 1700000000000] id1
    by (simp_all add: textOf_def truthy_def createdOnInsert_def)
  have w2: "last (a_ops (processRow intOps exampleObjectId ''admin@rebelx.io'' True ?acc ?r2))
               = UpdateOne (EmailFilter ''ann@example.io'') (sanitizeRow intOps ''admin@rebelx.io'' ?r2) None True"
    and w5: "csvOp 1700000000000 (emptyData\<lparr>v_name := Some ''Acme'', v_email := Some ''ann@example.io''\<rparr> :: int client_data)
               = UpdateOne (EmailFilter ''ann@example.io'')
                   (setPayloadOf (emptyData\<lparr>v_name := Some ''Acme'', v_email := Some ''ann@example.io''\<rparr>))
                   (DateAt 1700000000000) True"
    using identity_resolution[of intOps "''admin@rebelx.io''" ?r2 exampleObjectId True ?acc "[]"
        "emptyData\<lparr>v_name := Some ''Acme'', v_email := Some ''ann@example.io''\<rparr> :: int client_data" 1700000000000] id2 em2
    by (simp_all add: textOf_def truthy_def createdOnInsert_def)
  have w3: "\<not> mayUpdate (last (a_ops (processRow intOps exampleObjectId ''admin@rebelx.io'' True ?acc ?r3)))
               [(''c-17'', ''ann@example.io'')]"
    and w6: "isPlainInsert (csvOp 1700000000000 (emptyData\<lparr>v_name := Some ''Acme''\<rparr> :: int client_data))"
    using identity_resolution[of intOps "''admin@rebelx.io''" ?r3 exampleObjectId True ?acc
        "[(''c-17'', ''ann@example.io'')]" "emptyData\<lparr>v_name := Some ''Acme''\<rparr> :: int client_data" 1700000000000]
      id3 em3 fresh
    by (auto simp add: textOf_def truthy_def createdOnInsert_def)
  show ?thesis
    using w1 w2 w3 w4 w5 w6 by blast
qed

text \<open>
  The claim as stated fails on its third case. In the JSON batch path the row without
  identifier is written as an upsert, not as a plain insert; in the CSV path it is
  written as a plain insert whose document carries no generated id.
\<close>

theorem identifierless_row_counterexample:
  "b_id (sanitizeRow intOps ''admin@rebelx.io'' [(''Name'', JStr ''Acme'')]) = []
   \<and> b_email (sanitizeRow intOps ''admin@rebelx.io'' [(''Name'', JStr ''Acme'')]) = []
   \<and> \<not> isPlainInsert (last (a_ops (processRow intOps exampleObjectId ''admin@rebelx.io'' True
           \<lparr>a_ops = [], a_rowsProcessed = 0, a_skipped = 0, a_errors = [], a_generated = 0\<rparr>
           [(''Name'', JStr ''Acme'')])))
   \<and> (case csvOp 1700000000000 (emptyData\<lparr>v_name := Some ''Acme''\<rparr> :: int client_data) of
         InsertOne doc \<Rightarrow> v_id (ins_fields doc) = None
       | UpdateOne f p c u \<Rightarrow> False)"
proof -
  have ids: "b_id (sanitizeRow intOps ''admin@rebelx.io'' [(''Name'', JStr ''Acme'')]) = []"
    "b_email (sanitizeRow intOps ''admin@rebelx.io'' [(''Name'', JStr ''Acme'')]) = []"
    by (simp_all add: row_eval)
  have csv: "case csvOp 1700000000000 (emptyData\<lparr>v_name := Some ''Acme''\<rparr> :: int client_data) of
         InsertOne doc \<Rightarrow> v_id (ins_fields doc) = None
       | UpdateOne f p c u \<Rightarrow> False"
    by (simp add: csvOp_shape truthy_def setPayloadOf_def)
  show ?thesis
    using ids csv by (simp add: processRow_last isPlainInsert_def)
qed

section \<open>Time stamps written by the CSV import\<close>






section \<open>The default payment method\<close>

lemma no_default_after_reset: "filter pm_isDefault (map (\<lambda>pm. pm\<lparr>pm_isDefault := False\<rparr>) ms) = []"
  by (induction ms) simp_all

text \<open>
  Claim C7, as amended. When \<^verbatim>\<open>addPaymentMethod\<close> is called with \<^verbatim>\<open>isDefault\<close> true, or on
  a record without payment methods, and returns, then exactly one entry of the list is the
  default: it is the newly attached one, the last of the list, and the entries before it
  are the previous ones, each flipped to non-default. On a record without payment methods
  the attached entry is the default whatever \<^verbatim>\<open>isDefault\<close> says.
\<close>

theorem attached_method_is_the_only_default:
  assumes "addPaymentMethod now paymentMethodData paymentMethod = Some ms"
    and "pmd_isDefault paymentMethodData \<or> paymentMethod = None \<or> paymentMethod = Some []"
  shows "length (filter pm_isDefault ms) = 1
    \<and> ms \<noteq> []
    \<and> pm_isDefault (last ms)
    \<and> pm_id (last ms) = pmd_id paymentMethodData
    \<and> butlast ms = map (\<lambda>pm. pm\<lparr>pm_isDefault := False\<rparr>) (case paymentMethod of None \<Rightarrow> [] | Some old \<Rightarrow> old)
    \<and> (\<forall>pm \<in> set (butlast ms). \<not> pm_isDefault pm)
    \<and> (paymentMethod = None \<or> paymentMethod = Some [] \<longrightarrow> length ms = 1)"
  using assms
  by (auto simp: addPaymentMethod_def Let_def no_default_after_reset split: if_splits option.splits)

theorem attached_method_is_the_only_default_witness:
  "addPaymentMethod 1700000000000 visaData (Some [storedEntry])
     = Some [storedEntry\<lparr>pm_isDefault := False\<rparr>,
             \<lparr> pm_id = ''pm_1'', pm_brand = ''visa'', pm_last4 = ''4242'', pm_expMonth = 9,
               pm_expYear = 2026, pm_nameOnCard = None, pm_billingZip = None, pm_isDefault = True,
               pm_createdAt = 1700000000000 \<rparr>]
   \<and> pmd_isDefault visaData
   \<and> length (filter pm_isDefault
        [storedEntry\<lparr>pm_isDefault := False\<rparr>,
         \<lparr> pm_id = ''pm_1'', pm_brand = ''visa'', pm_last4 = ''4242'', pm_expMonth = 9,
           pm_expYear = 2026, pm_nameOnCard = None, pm_billingZip = None, pm_isDefault = True,
           pm_createdAt = 1700000000000 \<rparr>]) = 1"
proof -
  have run: "addPaymentMethod 1700000000000 visaData (Some [storedEntry])
     = Some [storedEntry\<lparr>pm_isDefault := False\<rparr>,
             \<lparr> pm_id = ''pm_1'', pm_brand = ''visa'', pm_last4 = ''4242'', pm_expMonth = 9,
               pm_expYear = 2026, pm_nameOnCard = None, pm_billingZip = None, pm_isDefault = True,
               pm_createdAt = 1700000000000 \<rparr>]"
    by (simp add: addPaymentMethod_def visaData_def truthy_def)
  have dflt: "pmd_isDefault visaData \<or> Some [storedEntry] = None \<or> Some [storedEntry] = Some []"
    by (simp add: visaData_def)
  show ?thesis
    using attached_method_is_the_only_default[OF run dflt] run dflt by simp
qed

text \<open>
  The claim as stated fails when the method is called with \<^verbatim>\<open>isDefault\<close> false on a
  record that has a payment method: the new entry is not the default and the previous
  default stays.
\<close>

theorem non_default_attachment_counterexample:
  "addPaymentMethod 1700000000000 (visaData\<lparr>pmd_isDefault := False\<rparr>) (Some [storedEntry])
     = Some [storedEntry,
             \<lparr> pm_id = ''pm_1'', pm_brand = ''visa'', pm_last4 = ''4242'', pm_expMonth = 9,
               pm_expYear = 2026, pm_nameOnCard = None, pm_billingZip = None, pm_isDefault = False,
               pm_createdAt = 1700000000000 \<rparr>]
   \<and> pm_isDefault storedEntry"
  by (simp add: addPaymentMethod_def visaData_def storedEntry_def truthy_def)

end
